theory Spec2Isabelle
  imports Main "HOL-Library.Sublist"
begin

section \<open>Python string primitives used by the program\<close>

text \<open>
  A Python \<open>str\<close> is a sequence of code points. The functions below are polymorphic in
  the element type, so that they serve both ASCII text (\<open>string\<close>) and sequences of code
  points (\<open>nat list\<close>) where the program handles glyphs outside Latin-1.
\<close>

text \<open>\<open>str.replace(old, new)\<close>: occurrences are replaced from left to right and do
  not overlap; for an empty \<open>old\<close> Python inserts \<open>new\<close> before every element and
  at the end.\<close>

function replace :: "'a list \<Rightarrow> 'a list \<Rightarrow> 'a list \<Rightarrow> 'a list" where
  "replace old new [] = (if old = [] then new else [])"
| "replace old new (c # cs) =
     (if old = [] then new @ c # replace old new cs
      else if prefix old (c # cs) then new @ replace old new (drop (length old) (c # cs))
      else c # replace old new cs)"
  by pat_completeness auto
termination
  by (relation "measure (\<lambda>(old, new, s). length s)") auto

text \<open>\<open>str.endswith(suffix)\<close>.\<close>

definition endswith :: "'a list \<Rightarrow> 'a list \<Rightarrow> bool" where
  "endswith s suf = (length suf \<le> length s \<and> drop (length s - length suf) s = suf)"

text \<open>\<open>str(n)\<close> for an \<open>int\<close>: decimal digits, with a minus sign for a negative number.\<close>

definition digit_char :: "nat \<Rightarrow> char" where
  "digit_char d = ''0123456789'' ! d"

fun str_nat :: "nat \<Rightarrow> string" where
  "str_nat n = (if n < 10 then [digit_char n] else str_nat (n div 10) @ [digit_char (n mod 10)])"

declare str_nat.simps [simp del]

definition str_int :: "int \<Rightarrow> string" where
  "str_int i = (if i < 0 then CHR ''-'' # str_nat (nat (- i)) else str_nat (nat i))"

text \<open>The values that the program interpolates into f-strings and query parameters:
  \<open>None\<close>, an \<open>int\<close> or a \<open>str\<close>; \<open>py_str\<close> is Python's \<open>str(v)\<close>.\<close>

datatype pyval = PNone | PInt int | PStr string

fun py_str :: "pyval \<Rightarrow> string" where
  "py_str PNone = ''None''"
| "py_str (PInt i) = str_int i"
| "py_str (PStr s) = s"

section \<open>Errors, log records and the outside world\<close>

text \<open>Every exception of the program is a value of this type; all of them derive from
  Python's \<open>Exception\<close>, so \<open>except Exception\<close> and a bare \<open>except\<close> both catch them.\<close>

datatype error =
    KeyError string
  | HTTPStatusError nat
  | TransportError string
  | DecodeError string
  | MutagenError string
  | OSError string
  | ZeroDivisionError
  | CallbackError string
  | GenericException string

text \<open>One constructor for each logging call of the three modules.\<close>

datatype log_entry =
    InfoFileAlreadyExists string
  | WarningFailedThumbnail error
  | InfoDownloadedCover string
  | DebugFailedCoverFrom string error
  | WarningFailedAnyCover
  | ErrorFailedTrack string error
  | InfoScraping
  | InfoInitialized string
  | InfoFoundActiveSecret
  | WarningTokenUnauthorized
  | ErrorAudioInfo error
  | ErrorThumbnail error
  | InfoCreatedThumbnail string

text \<open>An HTTP GET of the API client (URL, query parameters, headers of the client
  session), and the streaming GET of the audio payload.\<close>

datatype request =
    HttpGet string "(string \<times> pyval) list" "(string \<times> string) list"
  | HttpStream string

record track_item =
  ti_id :: pyval
  ti_title :: string

text \<open>The album object of the API. A field read with \<open>d["k"]\<close> is a plain field; a
  field read with \<open>d.get("k")\<close> or tested for truth is optional, \<open>None\<close> standing for a
  missing key or a JSON null.\<close>

record album_data =
  ad_artist_name :: string
  ad_title :: string
  ad_release_date_original :: "string option"
  ad_image_large :: string
  ad_image_small :: "string option"
  ad_tracks :: "track_item list"

record track_data =
  td_title :: string
  td_version :: "string option"
  td_work :: "string option"
  td_track_number :: int
  td_duration :: "int option"
  td_album :: "album_data option"

record file_info =
  fi_url :: "string option"

datatype json_body =
    JTrack track_data
  | JAlbum album_data
  | JFileInfo file_info
  | JLogin "string option"
  | JText string
  | JInvalid

record response =
  status_code :: nat
  body :: json_body
  content :: string

text \<open>The response to a streaming GET: status, the \<open>content-length\<close> header, the
  chunks that \<open>aiter_bytes\<close> delivers, and the transport error that ends the stream
  early, if any.\<close>

record stream_response =
  st_status :: nat
  st_content_length :: "int option"
  st_chunks :: "string list"
  st_failure :: "error option"

text \<open>The stream information that mutagen reads from a FLAC file; an attribute that the
  code reads with \<open>getattr\<close>/\<open>hasattr\<close> is optional.\<close>

record flac_info =
  bits_per_sample :: "int option"
  sample_rate :: int
  bitrate :: "int option"

text \<open>
  What lies outside the repository: the wall clock (\<open>time_at k\<close> is the value of the
  \<open>k\<close>-th reading of \<open>time.time()\<close>, truncated to an integer), the HTTP servers, and the
  library functions \<open>hashlib.md5(...).hexdigest()\<close>, \<open>pathvalidate.sanitize_filename\<close>,
  \<open>base64.standard_b64decode(...).decode("utf-8")\<close> (\<open>None\<close> when either step
  raises), the searches of module \<open>re\<close> with the four patterns of \<open>qobuz_client.py\<close>
  (\<open>info_extras_finditer tzs\<close> is the search with \<open>_INFO_EXTRAS_REGEX\<close> formatted with
  \<open>timezones = tzs\<close>; each match is given by its named groups, in the order the code
  reads them), mutagen's readers and writers, Pillow's thumbnail, and the two
  floating-point computations of \<open>get_audio_info\<close>.
\<close>

record env =
  time_at :: "nat \<Rightarrow> int"
  srv :: "request \<Rightarrow> error + response"
  srv_stream :: "string \<Rightarrow> error + stream_response"
  md5_hex :: "string \<Rightarrow> string"
  sanitize_filename :: "string \<Rightarrow> string"
  b64decode_utf8 :: "string \<Rightarrow> string option"
  bundle_url_search :: "string \<Rightarrow> string option"
  app_id_search :: "string \<Rightarrow> string option"
  seed_timezone_finditer :: "string \<Rightarrow> (string \<times> string) list"
  info_extras_finditer :: "string \<Rightarrow> string \<Rightarrow> (string \<times> string \<times> string) list"
  parse_flac :: "string \<Rightarrow> error + flac_info"
  fallback_kbps :: "string \<Rightarrow> error + int"
  mp3_bitrate :: "string \<Rightarrow> error + int"
  fmt_g_khz :: "int \<Rightarrow> string"
  make_thumbnail :: "string \<Rightarrow> error + string"
  write_tags :: "bool \<Rightarrow> string \<Rightarrow> track_data \<Rightarrow> album_data \<Rightarrow> string option \<Rightarrow> error + string"

text \<open>The state that the program reads and changes: the files and directories on disk,
  the number of clock readings so far, and three traces (requests sent, log records
  emitted, calls of the progress callback).\<close>

record world =
  files :: "string \<rightharpoonup> string"
  dirs :: "string set"
  ticks :: nat
  net_log :: "request list"
  log :: "log_entry list"
  progress :: "(nat \<times> int \<times> string) list"

definition path_exists :: "world \<Rightarrow> string \<Rightarrow> bool" where
  "path_exists w p = (files w p \<noteq> None \<or> p \<in> dirs w)"

definition emit :: "log_entry \<Rightarrow> world \<Rightarrow> world" where
  "emit e w = w\<lparr>log := log w @ [e]\<rparr>"

text \<open>Opening a file for reading.\<close>

definition read_file :: "world \<Rightarrow> string \<Rightarrow> error + string" where
  "read_file w p = (case files w p of None \<Rightarrow> Inl (OSError p) | Some c \<Rightarrow> Inr c)"

section \<open>metadata_utils.py\<close>

text \<open>Code points of a text given in ASCII.\<close>

definition cps :: "string \<Rightarrow> nat list" where
  "cps s = map of_char s"

text \<open>Line 11: \<open>COPYRIGHT\<close> is bound to the one-character string U+2117 and
  \<open>PHON_COPYRIGHT\<close> to the one-character string U+00A9.\<close>

definition COPYRIGHT :: "nat list" where
  "COPYRIGHT = [0x2117]"

definition PHON_COPYRIGHT :: "nat list" where
  "PHON_COPYRIGHT = [0xA9]"

definition get_title :: "track_data \<Rightarrow> string" where
  "get_title track_dict =
     (let title = td_title track_dict;
          title = (case td_version track_dict of
                     None \<Rightarrow> title
                   | Some version \<Rightarrow>
                       if version \<noteq> [] then title @ '' ('' @ version @ '')'' else title);
          title = (case td_work track_dict of
                     None \<Rightarrow> title
                   | Some work \<Rightarrow> if work \<noteq> [] then work @ '': '' @ title else title)
      in title)"

definition format_copyright :: "nat list \<Rightarrow> nat list" where
  "format_copyright s =
     (if s \<noteq> [] then replace (cps ''(C)'') COPYRIGHT (replace (cps ''(P)'') PHON_COPYRIGHT s)
      else s)"

text \<open>Lines 168-169 of \<open>get_audio_info\<close>.\<close>

definition is_hires :: "int \<Rightarrow> int \<Rightarrow> bool" where
  "is_hires bt_depth sr_hz = (bt_depth > 16 \<or> sr_hz > 48000)"

definition quality_type :: "int \<Rightarrow> int \<Rightarrow> string" where
  "quality_type bt_depth sr_hz = (if is_hires bt_depth sr_hz then ''Hi-Res'' else ''CD'')"

text \<open>\<open>int(x / 1000)\<close> for an integer \<open>x\<close>: the quotient truncated towards zero.\<close>

definition int_div_1000 :: "int \<Rightarrow> int" where
  "int_div_1000 x = (if 0 \<le> x then x div 1000 else - ((- x) div 1000))"

text \<open>Lines 172-177: the reported bitrate when the attribute is there and positive,
  otherwise the estimate from file size and play length.\<close>

definition flac_kbps :: "env \<Rightarrow> string \<Rightarrow> flac_info \<Rightarrow> error + int" where
  "flac_kbps e data info =
     (case bitrate info of
        Some b \<Rightarrow> if b > 0 then Inr (int_div_1000 b) else fallback_kbps e data
      | None \<Rightarrow> fallback_kbps e data)"

text \<open>The body of the \<open>try\<close> block of \<open>get_audio_info\<close>: \<open>Inr None\<close> when neither
  branch is taken.\<close>

definition audio_info_body :: "env \<Rightarrow> world \<Rightarrow> string \<Rightarrow> error + string option" where
  "audio_info_body e w file_path =
     (if endswith file_path ''.flac'' then
        (case read_file w file_path of
           Inl err \<Rightarrow> Inl err
         | Inr data \<Rightarrow>
             (case parse_flac e data of
                Inl err \<Rightarrow> Inl err
              | Inr info \<Rightarrow>
                  (let bt_depth = (case bits_per_sample info of None \<Rightarrow> 16 | Some b \<Rightarrow> b);
                       sr_hz = sample_rate info
                   in case flac_kbps e data info of
                        Inl err \<Rightarrow> Inl err
                      | Inr kbps \<Rightarrow>
                          Inr (Some (''FLAC '' @ quality_type bt_depth sr_hz @ '' ''
                                     @ str_int bt_depth @ ''-Bit / '' @ fmt_g_khz e sr_hz
                                     @ '' kHz / '' @ str_int kbps @ '' kbps'')))))
      else if endswith file_path ''.mp3'' then
        (case read_file w file_path of
           Inl err \<Rightarrow> Inl err
         | Inr data \<Rightarrow>
             (case mp3_bitrate e data of
                Inl err \<Rightarrow> Inl err
              | Inr b \<Rightarrow> Inr (Some (''MP3 '' @ str_int (int_div_1000 b) @ '' kbps''))))
      else Inr None)"

definition get_audio_info :: "env \<Rightarrow> world \<Rightarrow> string \<Rightarrow> string \<times> world" where
  "get_audio_info e w file_path =
     (case audio_info_body e w file_path of
        Inl err \<Rightarrow> ([], emit (ErrorAudioInfo err) w)
      | Inr (Some caption) \<Rightarrow> (caption, w)
      | Inr None \<Rightarrow> ([], w))"

section \<open>qobuz_client.py\<close>

record sig_data =
  sig_ts :: int
  sig_sig :: string

text \<open>\<open>_generate_sig\<close>: the clock is read first, then the canonical string is built;
  a missing \<open>format_id\<close> or \<open>track_id\<close> raises \<open>KeyError\<close>.\<close>

definition generate_sig ::
  "env \<Rightarrow> world \<Rightarrow> string \<Rightarrow> string \<Rightarrow> (string \<rightharpoonup> pyval) \<Rightarrow> pyval
     \<Rightarrow> (error + sig_data) \<times> world" where
  "generate_sig e w entity method params secret =
     (let ts = time_at e (ticks w);
          w' = w\<lparr>ticks := Suc (ticks w)\<rparr>;
          r_sig =
            (if method = ''getFileUrl'' then
               (case params ''format_id'' of
                  None \<Rightarrow> Inl (KeyError ''format_id'')
                | Some format_id \<Rightarrow>
                    (case params ''track_id'' of
                       None \<Rightarrow> Inl (KeyError ''track_id'')
                     | Some track_id \<Rightarrow>
                         Inr (''trackgetFileUrlformat_id'' @ py_str format_id
                              @ ''intentstreamtrack_id'' @ py_str track_id
                              @ str_int ts @ py_str secret)))
             else if method = ''getUserFavorites'' then
               Inr (''favoritegetUserFavorites'' @ str_int ts @ py_str secret)
             else Inr (entity @ method @ str_int ts @ py_str secret))
      in case r_sig of
           Inl err \<Rightarrow> (Inl err, w')
         | Inr r \<Rightarrow> (Inr \<lparr>sig_ts = ts, sig_sig = md5_hex e r\<rparr>, w'))"

text \<open>The two constants of the module and the state of a \<open>QobuzClient\<close>; \<open>headers\<close>
  are the headers of its HTTP session.\<close>

definition BASE_URL :: string where
  "BASE_URL = ''https://play.qobuz.com''"

definition base_url :: string where
  "base_url = ''https://www.qobuz.com/api.json/0.2/''"

record qobuz_client =
  email :: "string option"
  password :: "string option"
  user_auth_token :: "string option"
  app_id :: "string option"
  active_secret :: "string option"
  secrets :: "string list"
  headers :: "(string \<times> string) list"

text \<open>A Python \<open>dict\<close> or \<open>OrderedDict\<close> whose iteration order matters is a list of
  pairs with distinct keys, in insertion order. \<open>od_set\<close> is \<open>d[k] = v\<close>: a known key
  keeps its position, a new key goes to the end. \<open>move_to_front\<close> is
  \<open>move_to_end(k, last=False)\<close>.\<close>

definition od_set :: "'k \<Rightarrow> 'v \<Rightarrow> ('k \<times> 'v) list \<Rightarrow> ('k \<times> 'v) list" where
  "od_set k v od =
     (if k \<in> set (map fst od) then map (\<lambda>(k', v'). if k' = k then (k', v) else (k', v')) od
      else od @ [(k, v)])"

definition move_to_front :: "'k \<Rightarrow> ('k \<times> 'v) list \<Rightarrow> ('k \<times> 'v) list" where
  "move_to_front k od = filter (\<lambda>p. fst p = k) od @ filter (\<lambda>p. fst p \<noteq> k) od"

text \<open>\<open>__init__\<close>.\<close>

definition new_client ::
  "string option \<Rightarrow> string option \<Rightarrow> string option \<Rightarrow> string option \<Rightarrow> string option
     \<Rightarrow> qobuz_client" where
  "new_client em pw token aid app_secret =
     \<lparr>email = em, password = pw, user_auth_token = token, app_id = aid,
      active_secret = app_secret,
      secrets = (case app_secret of None \<Rightarrow> [] | Some s \<Rightarrow> if s \<noteq> [] then [s] else []),
      headers = [(''User-Agent'',
                  ''Mozilla/5.0 (Windows NT 10.0; Win64; x64; rv:83.0) Gecko/20100101 Firefox/83.0''),
                 (''Content-Type'', ''application/json;charset=UTF-8'')]\<rparr>"

text \<open>Sending a request appends it to the trace of the world; the answer is the
  server's.\<close>

definition send :: "env \<Rightarrow> world \<Rightarrow> request \<Rightarrow> (error + response) \<times> world" where
  "send e w req = (srv e req, w\<lparr>net_log := net_log w @ [req]\<rparr>)"

text \<open>\<open>Response.raise_for_status()\<close> of httpx raises unless the status is 2xx.\<close>

definition is_success :: "nat \<Rightarrow> bool" where
  "is_success s = (200 \<le> s \<and> s \<le> 299)"

subsection \<open>Secret discovery: lines 78-102 of \<open>_scrape_bundle\<close>\<close>

text \<open>\<open>str.lower()\<close> and \<open>str.capitalize()\<close> on ASCII letters.\<close>

definition lower_char :: "char \<Rightarrow> char" where
  "lower_char c =
     (case map_of (zip ''ABCDEFGHIJKLMNOPQRSTUVWXYZ'' ''abcdefghijklmnopqrstuvwxyz'') c of
        None \<Rightarrow> c | Some l \<Rightarrow> l)"

definition upper_char :: "char \<Rightarrow> char" where
  "upper_char c =
     (case map_of (zip ''abcdefghijklmnopqrstuvwxyz'' ''ABCDEFGHIJKLMNOPQRSTUVWXYZ'') c of
        None \<Rightarrow> c | Some u \<Rightarrow> u)"

definition lower :: "string \<Rightarrow> string" where
  "lower s = map lower_char s"

definition capitalize :: "string \<Rightarrow> string" where
  "capitalize s = (case s of [] \<Rightarrow> [] | c # cs \<Rightarrow> upper_char c # map lower_char cs)"

text \<open>\<open>sep.join(xs)\<close>.\<close>

fun join :: "'a list \<Rightarrow> 'a list list \<Rightarrow> 'a list" where
  "join sep [] = []"
| "join sep [x] = x"
| "join sep (x # y # ys) = x @ sep @ join sep (y # ys)"

text \<open>Lines 79-82: each match stores \<open>[seed]\<close> under its timezone.\<close>

fun collect_seeds ::
  "(string \<times> string) list \<Rightarrow> (string \<times> string list) list \<Rightarrow> (string \<times> string list) list" where
  "collect_seeds [] secrets_raw = secrets_raw"
| "collect_seeds ((seed, timezone) # ms) secrets_raw =
     collect_seeds ms (od_set timezone [seed] secrets_raw)"

text \<open>Lines 84-86: with more than one entry, the key of the second entry moves to the
  front.\<close>

definition reorder :: "(string \<times> string list) list \<Rightarrow> (string \<times> string list) list" where
  "reorder secrets_raw =
     (let keypairs = secrets_raw
      in if length keypairs > 1 then move_to_front (fst (keypairs ! 1)) secrets_raw
         else secrets_raw)"

text \<open>Lines 92-94: \<open>secrets_raw[timezone.lower()] += [info, extras]\<close> raises \<open>KeyError\<close>
  for a key that is not there.\<close>

fun add_info_extras ::
  "(string \<times> string \<times> string) list \<Rightarrow> (string \<times> string list) list
     \<Rightarrow> error + (string \<times> string list) list" where
  "add_info_extras [] secrets_raw = Inr secrets_raw"
| "add_info_extras ((timezone, info, extras) # ms) secrets_raw =
     (case map_of secrets_raw (lower timezone) of
        None \<Rightarrow> Inl (KeyError (lower timezone))
      | Some parts \<Rightarrow>
          add_info_extras ms (od_set (lower timezone) (parts @ [info, extras]) secrets_raw))"

text \<open>Lines 96-102: \<open>s[:-44]\<close> keeps all but the last 44 characters (nothing of a
  shorter string); a candidate that does not decode is skipped.\<close>

fun decode_secrets :: "env \<Rightarrow> (string \<times> string list) list \<Rightarrow> string list" where
  "decode_secrets e [] = []"
| "decode_secrets e ((tz, parts) # rest) =
     (case b64decode_utf8 e (take (length (concat parts) - 44) (concat parts)) of
        None \<Rightarrow> decode_secrets e rest
      | Some decoded \<Rightarrow> decoded # decode_secrets e rest)"

definition bundle_secrets :: "env \<Rightarrow> string \<Rightarrow> error + string list" where
  "bundle_secrets e bundle_js =
     (let secrets_raw = reorder (collect_seeds (seed_timezone_finditer e bundle_js) []);
          timezones_pattern = join ''|'' (map (\<lambda>(tz, parts). capitalize tz) secrets_raw)
      in case add_info_extras (info_extras_finditer e timezones_pattern bundle_js) secrets_raw of
           Inl err \<Rightarrow> Inl err
         | Inr secrets_raw \<Rightarrow> Inr (decode_secrets e secrets_raw))"

text \<open>\<open>_scrape_bundle\<close>: the two page fetches use a session of their own, without the
  client's headers. The application id is stored before the secrets are computed.\<close>

definition scrape_bundle ::
  "env \<Rightarrow> qobuz_client \<Rightarrow> world \<Rightarrow> (error + unit) \<times> qobuz_client \<times> world" where
  "scrape_bundle e c w =
     (case send e (emit InfoScraping w) (HttpGet (BASE_URL @ ''/login'') [] []) of
        (Inl err, w) \<Rightarrow> (Inl err, c, w)
      | (Inr resp, w) \<Rightarrow>
          if \<not> is_success (status_code resp) then (Inl (HTTPStatusError (status_code resp)), c, w)
          else
            (case bundle_url_search e (content resp) of
               None \<Rightarrow> (Inl (GenericException ''Could not find bundle URL''), c, w)
             | Some path \<Rightarrow>
                 (case send e w (HttpGet (BASE_URL @ path) [] []) of
                    (Inl err, w) \<Rightarrow> (Inl err, c, w)
                  | (Inr resp, w) \<Rightarrow>
                      if \<not> is_success (status_code resp)
                      then (Inl (HTTPStatusError (status_code resp)), c, w)
                      else
                        (let bundle_js = content resp
                         in case app_id_search e bundle_js of
                              None \<Rightarrow>
                                (Inl (GenericException ''Could not find App ID in bundle''), c, w)
                            | Some aid \<Rightarrow>
                                (let c = c\<lparr>app_id := Some aid\<rparr>
                                 in case bundle_secrets e bundle_js of
                                      Inl err \<Rightarrow> (Inl err, c, w)
                                    | Inr secs \<Rightarrow>
                                        (Inr (),
                                         c\<lparr>secrets := secs,
                                           headers := od_set ''X-App-Id'' aid (headers c)\<rparr>,
                                         emit (InfoInitialized aid) w))))))"

subsection \<open>Probing for the active secret\<close>

definition test_track_id :: int where
  "test_track_id = 5966783"

definition probe_request :: "qobuz_client \<Rightarrow> sig_data \<Rightarrow> request" where
  "probe_request c sg =
     HttpGet (base_url @ ''track/getFileUrl'')
       [(''request_ts'', PInt (sig_ts sg)), (''request_sig'', PStr (sig_sig sg)),
        (''track_id'', PInt test_track_id), (''format_id'', PInt 5),
        (''intent'', PStr ''stream'')]
       (headers c)"

text \<open>The loop of \<open>_find_active_secret\<close> over \<open>self.secrets\<close>, and the \<open>raise\<close> after
  it. An exception inside the \<open>try\<close> block moves on to the next candidate.\<close>

fun find_loop ::
  "env \<Rightarrow> qobuz_client \<Rightarrow> string list \<Rightarrow> world \<Rightarrow> (error + unit) \<times> qobuz_client \<times> world" where
  "find_loop e c [] w = (Inl (GenericException ''Could not find a valid app secret''), c, w)"
| "find_loop e c (secret # rest) w =
     (if secret = [] then find_loop e c rest w
      else
        (case generate_sig e w ''track'' ''getFileUrl''
                [''track_id'' \<mapsto> PInt test_track_id, ''format_id'' \<mapsto> PInt 5] (PStr secret) of
           (Inl err, w) \<Rightarrow> find_loop e c rest w
         | (Inr sg, w) \<Rightarrow>
             (case send e w (probe_request c sg) of
                (Inl err, w) \<Rightarrow> find_loop e c rest w
              | (Inr resp, w) \<Rightarrow>
                  if status_code resp = 200 \<or> status_code resp = 403
                  then (Inr (), c\<lparr>active_secret := Some secret\<rparr>, emit InfoFoundActiveSecret w)
                  else if status_code resp = 401
                  then find_loop e c rest (emit WarningTokenUnauthorized w)
                  else find_loop e c rest w)))"

declare find_loop.simps [simp del]

definition find_active_secret ::
  "env \<Rightarrow> qobuz_client \<Rightarrow> world \<Rightarrow> (error + unit) \<times> qobuz_client \<times> world" where
  "find_active_secret e c w = find_loop e c (secrets c) w"

subsection \<open>API calls\<close>

text \<open>\<open>request\<close>: GET, \<open>raise_for_status\<close>, \<open>json()\<close>.\<close>

definition request ::
  "env \<Rightarrow> qobuz_client \<Rightarrow> world \<Rightarrow> string \<Rightarrow> (string \<times> pyval) list
     \<Rightarrow> (error + json_body) \<times> world" where
  "request e c w endpoint params =
     (case send e w (HttpGet (base_url @ endpoint) params (headers c)) of
        (Inl err, w) \<Rightarrow> (Inl err, w)
      | (Inr resp, w) \<Rightarrow>
          if \<not> is_success (status_code resp) then (Inl (HTTPStatusError (status_code resp)), w)
          else (case body resp of
                  JInvalid \<Rightarrow> (Inl (DecodeError endpoint), w)
                | b \<Rightarrow> (Inr b, w)))"

text \<open>The API answers \<open>album/get\<close> with an album object, \<open>track/get\<close> with a track
  object and \<open>track/getFileUrl\<close> with a file object; a body of another shape is outside
  that contract and is an error here.\<close>

definition get_album :: "env \<Rightarrow> qobuz_client \<Rightarrow> world \<Rightarrow> pyval \<Rightarrow> (error + album_data) \<times> world" where
  "get_album e c w album_id =
     (case request e c w ''album/get'' [(''album_id'', album_id)] of
        (Inl err, w) \<Rightarrow> (Inl err, w)
      | (Inr (JAlbum a), w) \<Rightarrow> (Inr a, w)
      | (Inr _, w) \<Rightarrow> (Inl (DecodeError ''album/get''), w))"

definition get_track :: "env \<Rightarrow> qobuz_client \<Rightarrow> world \<Rightarrow> pyval \<Rightarrow> (error + track_data) \<times> world" where
  "get_track e c w track_id =
     (case request e c w ''track/get'' [(''track_id'', track_id)] of
        (Inl err, w) \<Rightarrow> (Inl err, w)
      | (Inr (JTrack t), w) \<Rightarrow> (Inr t, w)
      | (Inr _, w) \<Rightarrow> (Inl (DecodeError ''track/get''), w))"

definition get_file_url ::
  "env \<Rightarrow> qobuz_client \<Rightarrow> world \<Rightarrow> pyval \<Rightarrow> int \<Rightarrow> (error + file_info) \<times> world" where
  "get_file_url e c w track_id format_id =
     (case generate_sig e w ''track'' ''getFileUrl''
             [''track_id'' \<mapsto> track_id, ''format_id'' \<mapsto> PInt format_id]
             (case active_secret c of None \<Rightarrow> PNone | Some s \<Rightarrow> PStr s) of
        (Inl err, w) \<Rightarrow> (Inl err, w)
      | (Inr sig_data, w) \<Rightarrow>
          (case request e c w ''track/getFileUrl''
                  [(''request_ts'', PInt (sig_ts sig_data)),
                   (''request_sig'', PStr (sig_sig sig_data)),
                   (''track_id'', track_id), (''format_id'', PInt format_id),
                   (''intent'', PStr ''stream'')] of
             (Inl err, w) \<Rightarrow> (Inl err, w)
           | (Inr (JFileInfo f), w) \<Rightarrow> (Inr f, w)
           | (Inr _, w) \<Rightarrow> (Inl (DecodeError ''track/getFileUrl''), w)))"

section \<open>downloader.py\<close>

text \<open>\<open>os.path.join\<close> and \<open>os.path.dirname\<close> of two POSIX paths.\<close>

definition path_join :: "string \<Rightarrow> string \<Rightarrow> string" where
  "path_join a b =
     (if b \<noteq> [] \<and> hd b = CHR ''/'' then b
      else if a = [] \<or> last a = CHR ''/'' then a @ b
      else a @ ''/'' @ b)"

definition dirname :: "string \<Rightarrow> string" where
  "dirname p =
     (let head = rev (dropWhile (\<lambda>c. c \<noteq> CHR ''/'') (rev p))
      in if head \<noteq> [] \<and> \<not> list_all (\<lambda>c. c = CHR ''/'') head
         then rev (dropWhile (\<lambda>c. c = CHR ''/'') (rev head))
         else head)"

text \<open>\<open>f"{n:02}"\<close> for an \<open>int\<close>: at least two characters, padded with a zero after the
  sign.\<close>

definition fmt02 :: "int \<Rightarrow> string" where
  "fmt02 n = (if 0 \<le> n \<and> n < 10 then CHR ''0'' # str_int n else str_int n)"

text \<open>\<open>s.split("-")[0]\<close>.\<close>

definition before_dash :: "string \<Rightarrow> string" where
  "before_dash s = takeWhile (\<lambda>c. c \<noteq> CHR ''-'') s"

record downloader =
  client :: qobuz_client
  base_path :: string
  quality :: int

record player_info =
  pi_title :: string
  pi_performer :: string
  pi_duration :: "int option"
  pi_cover :: "string option"
  pi_thumbnail :: "string option"
  pi_folder_path :: string

text \<open>What \<open>download_track\<close> returns: line 57 returns the final path alone, line 108
  the triple of final path, caption and player information.\<close>

datatype dl_result =
    PathOnly string
  | Triple string string player_info

fun result_path :: "dl_result \<Rightarrow> string" where
  "result_path (PathOnly p) = p"
| "result_path (Triple p caption info) = p"

text \<open>The progress callback is a function of the caller; it is given (bytes so far,
  total size, file name) and may raise.\<close>

type_synonym pbar_callback = "nat \<times> int \<times> string \<Rightarrow> error option"

subsection \<open>\<open>_download_cover\<close>\<close>

text \<open>The loop of lines 124-134 and the two lines after it. Writing \<open>cover.jpg\<close> into
  the album folder, which the caller has created, is taken to succeed.\<close>

fun cover_loop :: "env \<Rightarrow> string \<Rightarrow> string option list \<Rightarrow> world \<Rightarrow> string option \<times> world" where
  "cover_loop e cover_path [] w = (None, emit WarningFailedAnyCover w)"
| "cover_loop e cover_path (None # urls) w = cover_loop e cover_path urls w"
| "cover_loop e cover_path (Some url # urls) w =
     (if url = [] then cover_loop e cover_path urls w
      else
        (case send e w (HttpGet url [] []) of
           (Inl err, w) \<Rightarrow> cover_loop e cover_path urls (emit (DebugFailedCoverFrom url err) w)
         | (Inr resp, w) \<Rightarrow>
             if status_code resp = 200
             then (Some cover_path,
                   emit (InfoDownloadedCover url)
                     (w\<lparr>files := (files w)(cover_path \<mapsto> content resp)\<rparr>))
             else cover_loop e cover_path urls w))"

declare cover_loop.simps [simp del]

definition urls_to_try :: "album_data \<Rightarrow> string option list" where
  "urls_to_try album_data =
     (let base_url = ad_image_large album_data
      in [Some (replace ''_600.jpg'' ''_org.jpg'' base_url), Some base_url,
          ad_image_small album_data])"

definition download_cover :: "env \<Rightarrow> world \<Rightarrow> album_data \<Rightarrow> string \<Rightarrow> string option \<times> world" where
  "download_cover e w album_data folder_path =
     (let cover_path = path_join folder_path ''cover.jpg''
      in if path_exists w cover_path then (Some cover_path, w)
         else cover_loop e cover_path (urls_to_try album_data) w)"

subsection \<open>The helpers of \<open>metadata_utils.py\<close> that touch the disk\<close>

definition create_thumbnail :: "env \<Rightarrow> world \<Rightarrow> string option \<Rightarrow> string option \<times> world" where
  "create_thumbnail e w image_path =
     (case image_path of
        None \<Rightarrow> (None, w)
      | Some p \<Rightarrow>
          if p = [] \<or> \<not> path_exists w p then (None, w)
          else
            (let thumb_path = path_join (dirname p) ''thumb.jpg''
             in case (case read_file w p of Inl err \<Rightarrow> Inl err | Inr img \<Rightarrow> make_thumbnail e img) of
                  Inl err \<Rightarrow> (None, emit (ErrorThumbnail err) w)
                | Inr thumb \<Rightarrow>
                    (Some thumb_path,
                     emit (InfoCreatedThumbnail thumb_path)
                       (w\<lparr>files := (files w)(thumb_path \<mapsto> thumb)\<rparr>))))"

text \<open>\<open>tag_flac\<close> and \<open>tag_mp3\<close>: mutagen opens the temporary file, sets the fields,
  embeds the cover when \<open>cover_path\<close> names a file, and saves; then the temporary file
  is renamed to the final name, replacing a file of that name.\<close>

definition tag_file ::
  "env \<Rightarrow> world \<Rightarrow> bool \<Rightarrow> string \<Rightarrow> string \<Rightarrow> track_data \<Rightarrow> album_data \<Rightarrow> string option
     \<Rightarrow> (error + unit) \<times> world" where
  "tag_file e w is_mp3 filename final_name track_data album_data cover_path =
     (case read_file w filename of
        Inl err \<Rightarrow> (Inl err, w)
      | Inr data \<Rightarrow>
          (let cover = (case cover_path of
                          None \<Rightarrow> None
                        | Some p \<Rightarrow> if p = [] then None else files w p)
           in case write_tags e is_mp3 data track_data album_data cover of
                Inl err \<Rightarrow> (Inl err, w)
              | Inr tagged \<Rightarrow>
                  (Inr (), w\<lparr>files := ((files w)(filename := None))(final_name \<mapsto> tagged)\<rparr>)))"

subsection \<open>\<open>download_track\<close>\<close>

text \<open>Lines 21-28: the track object is fetched in both branches; the album object is
  the one passed in or the one inside the track object.\<close>

definition resolve_metadata ::
  "env \<Rightarrow> downloader \<Rightarrow> world \<Rightarrow> pyval \<Rightarrow> album_data option
     \<Rightarrow> (error + track_data \<times> album_data) \<times> world" where
  "resolve_metadata e d w track_id album_data =
     (case get_track e (client d) w track_id of
        (Inl err, w) \<Rightarrow> (Inl err, w)
      | (Inr track_meta, w) \<Rightarrow>
          (case album_data of
             None \<Rightarrow>
               (case td_album track_meta of
                  None \<Rightarrow> (Inl (KeyError ''album''), w)
                | Some a \<Rightarrow> (Inr (track_meta, a), w))
           | Some a \<Rightarrow> (Inr (track_meta, a), w)))"

text \<open>Lines 31-34.\<close>

definition resolve_url ::
  "env \<Rightarrow> downloader \<Rightarrow> world \<Rightarrow> pyval \<Rightarrow> (error + string) \<times> world" where
  "resolve_url e d w track_id =
     (case get_file_url e (client d) w track_id (quality d) of
        (Inl err, w) \<Rightarrow> (Inl err, w)
      | (Inr file_info, w) \<Rightarrow>
          (case fi_url file_info of
             None \<Rightarrow>
               (Inl (GenericException
                  ''No download URL available. It might be a demo or restricted.''), w)
           | Some url \<Rightarrow>
               if url = []
               then (Inl (GenericException
                  ''No download URL available. It might be a demo or restricted.''), w)
               else (Inr url, w)))"

text \<open>Lines 37-43 and 147-148: the album folder.\<close>

definition album_folder :: "env \<Rightarrow> downloader \<Rightarrow> album_data \<Rightarrow> string" where
  "album_folder e d album_data =
     (let artist_name = ad_artist_name album_data;
          album_title = ad_title album_data;
          year = before_dash (case ad_release_date_original album_data of
                                None \<Rightarrow> [] | Some s \<Rightarrow> s);
          folder_name = sanitize_filename e
                          (artist_name @ '' - '' @ album_title @ '' ('' @ year @ '')'')
      in path_join (base_path d) folder_name)"

definition dest_folder ::
  "env \<Rightarrow> downloader \<Rightarrow> album_data \<Rightarrow> string option \<Rightarrow> string" where
  "dest_folder e d album_data folder_path =
     (case folder_path of
        None \<Rightarrow> album_folder e d album_data
      | Some f \<Rightarrow> if f = [] then album_folder e d album_data else f)"

text \<open>Lines 47-53.\<close>

definition is_mp3 :: "downloader \<Rightarrow> bool" where
  "is_mp3 d = (quality d = 5)"

definition extension :: "downloader \<Rightarrow> string" where
  "extension d = (if is_mp3 d then ''.mp3'' else ''.flac'')"

definition track_filename :: "env \<Rightarrow> downloader \<Rightarrow> track_data \<Rightarrow> string" where
  "track_filename e d track_data =
     (let track_number = fmt02 (td_track_number track_data);
          track_title = get_title track_data
      in sanitize_filename e (track_number @ ''. '' @ track_title @ extension d))"

text \<open>\<open>os.makedirs(folder_path, exist_ok=True)\<close>, taken to succeed.\<close>

definition makedirs :: "string \<Rightarrow> world \<Rightarrow> world" where
  "makedirs p w = w\<lparr>dirs := insert p (dirs w)\<rparr>"

text \<open>Lines 72-77: each chunk is appended to the temporary file, then the callback, if
  there is one, is called.\<close>

fun write_chunks ::
  "pbar_callback option \<Rightarrow> int \<Rightarrow> string \<Rightarrow> string \<Rightarrow> string list \<Rightarrow> nat \<Rightarrow> world
     \<Rightarrow> (error + unit) \<times> world" where
  "write_chunks pbar total_size filename tmp_path [] downloaded w = (Inr (), w)"
| "write_chunks pbar total_size filename tmp_path (chunk # chunks) downloaded w =
     (let w = w\<lparr>files := (files w)(tmp_path \<mapsto>
                  (case files w tmp_path of None \<Rightarrow> [] | Some old \<Rightarrow> old) @ chunk)\<rparr>;
          downloaded = downloaded + length chunk
      in case pbar of
           None \<Rightarrow> write_chunks pbar total_size filename tmp_path chunks downloaded w
         | Some callback \<Rightarrow>
             (let w = w\<lparr>progress := progress w @ [(downloaded, total_size, filename)]\<rparr>
              in case callback (downloaded, total_size, filename) of
                   Some err \<Rightarrow> (Inl err, w)
                 | None \<Rightarrow> write_chunks pbar total_size filename tmp_path chunks downloaded w))"

text \<open>Lines 66-77: the streaming GET; the temporary file is opened (and emptied) once
  the status has been checked.\<close>

definition stream_to_tmp ::
  "env \<Rightarrow> world \<Rightarrow> string \<Rightarrow> string \<Rightarrow> string \<Rightarrow> pbar_callback option
     \<Rightarrow> (error + unit) \<times> world" where
  "stream_to_tmp e w url tmp_path filename pbar =
     (let w = w\<lparr>net_log := net_log w @ [HttpStream url]\<rparr>
      in case srv_stream e url of
           Inl err \<Rightarrow> (Inl err, w)
         | Inr response \<Rightarrow>
             if \<not> is_success (st_status response)
             then (Inl (HTTPStatusError (st_status response)), w)
             else
               (let total_size = (case st_content_length response of None \<Rightarrow> 0 | Some n \<Rightarrow> n);
                    w = w\<lparr>files := (files w)(tmp_path \<mapsto> [])\<rparr>
                in case write_chunks pbar total_size filename tmp_path
                          (st_chunks response) 0 w of
                     (Inl err, w) \<Rightarrow> (Inl err, w)
                   | (Inr u, w) \<Rightarrow>
                       (case st_failure response of
                          Some err \<Rightarrow> (Inl err, w)
                        | None \<Rightarrow> (Inr (), w))))"

text \<open>Lines 59-108: what happens when the final file is not there yet.\<close>

definition fresh_download ::
  "env \<Rightarrow> downloader \<Rightarrow> world \<Rightarrow> track_data \<Rightarrow> album_data \<Rightarrow> string \<Rightarrow> string \<Rightarrow> string
     \<Rightarrow> pbar_callback option \<Rightarrow> (error + dl_result) \<times> world" where
  "fresh_download e d w track_data album_data url folder_path filename pbar =
     (let final_path = path_join folder_path filename;
          tmp_path = final_path @ ''.tmp''
      in case download_cover e w album_data folder_path of
           (cover_path, w) \<Rightarrow>
             (case stream_to_tmp e w url tmp_path filename pbar of
                (Inl err, w) \<Rightarrow> (Inl err, w)
              | (Inr u, w) \<Rightarrow>
                  (let thumb_path = path_join folder_path ''thumb.jpg'';
                       w = (if path_exists w thumb_path
                            then w\<lparr>files := (files w)(thumb_path := None)\<rparr> else w)
                   in case create_thumbnail e w cover_path of
                        (thumb_path, w) \<Rightarrow>
                          (case tag_file e w (is_mp3 d) tmp_path final_path track_data
                                  album_data cover_path of
                             (Inl err, w) \<Rightarrow> (Inl err, w)
                           | (Inr u, w) \<Rightarrow>
                               (case get_audio_info e w final_path of
                                  (caption, w) \<Rightarrow>
                                    (Inr (Triple final_path caption
                                       \<lparr>pi_title = get_title track_data,
                                        pi_performer = ad_artist_name album_data,
                                        pi_duration = td_duration track_data,
                                        pi_cover = cover_path,
                                        pi_thumbnail = thumb_path,
                                        pi_folder_path = folder_path\<rparr>), w))))))"

definition download_track ::
  "env \<Rightarrow> downloader \<Rightarrow> world \<Rightarrow> pyval \<Rightarrow> album_data option \<Rightarrow> string option
     \<Rightarrow> pbar_callback option \<Rightarrow> (error + dl_result) \<times> world" where
  "download_track e d w track_id album_data folder_path pbar =
     (case resolve_metadata e d w track_id album_data of
        (Inl err, w) \<Rightarrow> (Inl err, w)
      | (Inr (track_data, album_data), w) \<Rightarrow>
          (case resolve_url e d w track_id of
             (Inl err, w) \<Rightarrow> (Inl err, w)
           | (Inr url, w) \<Rightarrow>
               (let folder_path = dest_folder e d album_data folder_path;
                    w = makedirs folder_path w;
                    filename = track_filename e d track_data;
                    final_path = path_join folder_path filename
                in if path_exists w final_path
                   then (Inr (PathOnly final_path), emit (InfoFileAlreadyExists filename) w)
                   else fresh_download e d w track_data album_data url folder_path
                          filename pbar)))"

subsection \<open>\<open>download_album\<close>\<close>

text \<open>The loop of lines 150-157: a result is appended, an exception is logged with the
  title of the track.\<close>

fun album_loop ::
  "env \<Rightarrow> downloader \<Rightarrow> album_data \<Rightarrow> string \<Rightarrow> pbar_callback option \<Rightarrow> track_item list
     \<Rightarrow> dl_result list \<Rightarrow> world \<Rightarrow> dl_result list \<times> world" where
  "album_loop e d album_data folder_path pbar [] downloaded_data w = (downloaded_data, w)"
| "album_loop e d album_data folder_path pbar (track # tracks) downloaded_data w =
     (case download_track e d w (ti_id track) (Some album_data) (Some folder_path) pbar of
        (Inl err, w) \<Rightarrow>
          album_loop e d album_data folder_path pbar tracks downloaded_data
            (emit (ErrorFailedTrack (ti_title track) err) w)
      | (Inr result, w) \<Rightarrow>
          album_loop e d album_data folder_path pbar tracks (downloaded_data @ [result]) w)"

definition download_album ::
  "env \<Rightarrow> downloader \<Rightarrow> world \<Rightarrow> pyval \<Rightarrow> pbar_callback option
     \<Rightarrow> (error + dl_result list) \<times> world" where
  "download_album e d w album_id pbar =
     (case get_album e (client d) w album_id of
        (Inl err, w) \<Rightarrow> (Inl err, w)
      | (Inr album_data, w) \<Rightarrow>
          (let tracks = ad_tracks album_data;
               folder_path = album_folder e d album_data
           in case album_loop e d album_data folder_path pbar tracks [] w of
                (downloaded_data, w) \<Rightarrow> (Inr downloaded_data, w)))"

section \<open>Reference descriptions used in the statements\<close>

text \<open>The probe that \<open>_find_active_secret\<close> sends for a candidate secret when the clock
  reads \<open>ts\<close>: a GET of \<open>track/getFileUrl\<close> for track 5966783 in format 5, signed with
  the candidate.\<close>

definition signed_probe :: "env \<Rightarrow> qobuz_client \<Rightarrow> int \<Rightarrow> string \<Rightarrow> request" where
  "signed_probe e c ts secret =
     HttpGet ''https://www.qobuz.com/api.json/0.2/track/getFileUrl''
       [(''request_ts'', PInt ts),
        (''request_sig'', PStr (md5_hex e
           (''trackgetFileUrlformat_id5intentstreamtrack_id5966783'' @ str_int ts @ secret))),
        (''track_id'', PInt 5966783), (''format_id'', PInt 5), (''intent'', PStr ''stream'')]
       (headers c)"

text \<open>The non-empty candidates in list order, each with the probe of its turn: the
  \<open>k\<close>-th probe is signed with the \<open>k\<close>-th clock reading after \<open>t\<close>.\<close>

fun probes_from :: "env \<Rightarrow> qobuz_client \<Rightarrow> nat \<Rightarrow> string list \<Rightarrow> (string \<times> request) list" where
  "probes_from e c t [] = []"
| "probes_from e c t (s # ss) =
     (if s = [] then probes_from e c t ss
      else (s, signed_probe e c (time_at e t) s) # probes_from e c (Suc t) ss)"

text \<open>The server answers the probe with status 200 or 403; with status 401.\<close>

definition accepted :: "env \<Rightarrow> string \<times> request \<Rightarrow> bool" where
  "accepted e p =
     (case srv e (snd p) of
        Inl err \<Rightarrow> False
      | Inr resp \<Rightarrow> status_code resp = 200 \<or> status_code resp = 403)"

definition unauthorized :: "env \<Rightarrow> string \<times> request \<Rightarrow> bool" where
  "unauthorized e p =
     (case srv e (snd p) of Inl err \<Rightarrow> False | Inr resp \<Rightarrow> status_code resp = 401)"

text \<open>The distinct elements of a list in the order of their first appearance.\<close>

fun first_seen :: "'a list \<Rightarrow> 'a list" where
  "first_seen [] = []"
| "first_seen (x # xs) = x # first_seen (filter (\<lambda>y. y \<noteq> x) xs)"

text \<open>The order in which \<open>_scrape_bundle\<close> tries the discovered timezones: the second
  one seen goes first.\<close>

definition candidate_order :: "string list \<Rightarrow> string list" where
  "candidate_order tzs =
     (case first_seen tzs of
        tz1 # tz2 # others \<Rightarrow> tz2 # tz1 # others
      | short \<Rightarrow> short)"

text \<open>The seed of the last (seed, timezone) match for a timezone, and the info and
  extras of all the matches for it, in document order.\<close>

fun last_seed :: "(string \<times> string) list \<Rightarrow> string \<Rightarrow> string option" where
  "last_seed [] tz = None"
| "last_seed ((seed, t) # ms) tz =
     (case last_seed ms tz of
        Some s \<Rightarrow> Some s
      | None \<Rightarrow> if t = tz then Some seed else None)"

definition extras_for :: "(string \<times> string \<times> string) list \<Rightarrow> string \<Rightarrow> string list" where
  "extras_for ims tz =
     concat (map (\<lambda>(t, info, extras). [info, extras])
               (filter (\<lambda>(t, info, extras). lower t = tz) ims))"

definition candidate_text ::
  "(string \<times> string) list \<Rightarrow> (string \<times> string \<times> string) list \<Rightarrow> string \<Rightarrow> string" where
  "candidate_text ms ims tz =
     concat ((case last_seed ms tz of None \<Rightarrow> [] | Some seed \<Rightarrow> [seed]) @ extras_for ims tz)"

definition drop_last :: "nat \<Rightarrow> 'a list \<Rightarrow> 'a list" where
  "drop_last n s = take (length s - n) s"

text \<open>An ordered dictionary given by its keys in order and its values.\<close>

definition od_of :: "('k \<Rightarrow> 'v) \<Rightarrow> 'k list \<Rightarrow> ('k \<times> 'v) list" where
  "od_of f keys = map (\<lambda>k. (k, f k)) keys"

text \<open>The keys after inserting a sequence of keys into an ordered dictionary.\<close>

fun extend :: "'k list \<Rightarrow> 'k list \<Rightarrow> 'k list" where
  "extend keys [] = keys"
| "extend keys (x # xs) = extend (if x \<in> set keys then keys else keys @ [x]) xs"

text \<open>The GET that \<open>_download_cover\<close> sends for a URL; the candidate URLs that are
  neither \<open>None\<close> nor empty, in order; whether the answer to a URL has status 200; the
  debug record of a URL whose GET raised; the bytes of the answer.\<close>

definition cover_get :: "string \<Rightarrow> request" where
  "cover_get url = HttpGet url [] []"

definition usable_urls :: "string option list \<Rightarrow> string list" where
  "usable_urls urls =
     List.map_filter (\<lambda>u. case u of None \<Rightarrow> None | Some url \<Rightarrow> if url = [] then None else Some url)
       urls"

definition cover_ok :: "env \<Rightarrow> string \<Rightarrow> bool" where
  "cover_ok e url =
     (case srv e (cover_get url) of Inl err \<Rightarrow> False | Inr resp \<Rightarrow> status_code resp = 200)"

definition cover_debug :: "env \<Rightarrow> string list \<Rightarrow> log_entry list" where
  "cover_debug e urls =
     List.map_filter
       (\<lambda>url. case srv e (cover_get url) of
                 Inl err \<Rightarrow> Some (DebugFailedCoverFrom url err)
               | Inr resp \<Rightarrow> None)
       urls"

definition cover_bytes :: "env \<Rightarrow> string \<Rightarrow> string" where
  "cover_bytes e url = (case srv e (cover_get url) of Inl err \<Rightarrow> [] | Inr resp \<Rightarrow> content resp)"

text \<open>The two API requests of \<open>download_track\<close>, and what their answers decode to. The
  request for the file URL is signed with the active secret and the clock reading
  \<open>ts\<close>.\<close>

definition track_get_request :: "qobuz_client \<Rightarrow> pyval \<Rightarrow> request" where
  "track_get_request c track_id =
     HttpGet ''https://www.qobuz.com/api.json/0.2/track/get'' [(''track_id'', track_id)] (headers c)"

definition file_url_request :: "env \<Rightarrow> qobuz_client \<Rightarrow> int \<Rightarrow> pyval \<Rightarrow> int \<Rightarrow> request" where
  "file_url_request e c ts track_id format_id =
     HttpGet ''https://www.qobuz.com/api.json/0.2/track/getFileUrl''
       [(''request_ts'', PInt ts),
        (''request_sig'', PStr (md5_hex e
           (''trackgetFileUrlformat_id'' @ str_int format_id @ ''intentstreamtrack_id''
            @ py_str track_id @ str_int ts
            @ py_str (case active_secret c of None \<Rightarrow> PNone | Some s \<Rightarrow> PStr s)))),
        (''track_id'', track_id), (''format_id'', PInt format_id), (''intent'', PStr ''stream'')]
       (headers c)"

definition decode_answer :: "string \<Rightarrow> error + response \<Rightarrow> error + json_body" where
  "decode_answer endpoint answer =
     (case answer of
        Inl err \<Rightarrow> Inl err
      | Inr resp \<Rightarrow>
          if \<not> is_success (status_code resp) then Inl (HTTPStatusError (status_code resp))
          else (case body resp of JInvalid \<Rightarrow> Inl (DecodeError endpoint) | b \<Rightarrow> Inr b))"

definition track_answer :: "env \<Rightarrow> qobuz_client \<Rightarrow> pyval \<Rightarrow> error + track_data" where
  "track_answer e c track_id =
     (case decode_answer ''track/get'' (srv e (track_get_request c track_id)) of
        Inl err \<Rightarrow> Inl err
      | Inr (JTrack t) \<Rightarrow> Inr t
      | Inr other \<Rightarrow> Inl (DecodeError ''track/get''))"

definition file_answer :: "env \<Rightarrow> qobuz_client \<Rightarrow> int \<Rightarrow> pyval \<Rightarrow> int \<Rightarrow> error + file_info" where
  "file_answer e c ts track_id format_id =
     (case decode_answer ''track/getFileUrl'' (srv e (file_url_request e c ts track_id format_id)) of
        Inl err \<Rightarrow> Inl err
      | Inr (JFileInfo f) \<Rightarrow> Inr f
      | Inr other \<Rightarrow> Inl (DecodeError ''track/getFileUrl''))"

text \<open>The final path that \<open>download_track\<close> computes for a track.\<close>

definition final_path_of ::
  "env \<Rightarrow> downloader \<Rightarrow> track_data \<Rightarrow> album_data \<Rightarrow> string option \<Rightarrow> string" where
  "final_path_of e d track_data album_data folder_path =
     path_join (dest_folder e d album_data folder_path) (track_filename e d track_data)"

text \<open>The records that \<open>download_album\<close> writes for failed tracks, among the log of a
  world.\<close>

fun is_track_failure :: "log_entry \<Rightarrow> bool" where
  "is_track_failure (ErrorFailedTrack title err) = True"
| "is_track_failure other = False"

definition track_failures :: "world \<Rightarrow> log_entry list" where
  "track_failures w = filter is_track_failure (log w)"

text \<open>The outcome of each track of an album, in order: the result of \<open>download_track\<close>
  or the exception it raises, each call starting in the world that the loop of
  \<open>download_album\<close> has reached.\<close>

fun track_outcomes ::
  "env \<Rightarrow> downloader \<Rightarrow> album_data \<Rightarrow> string \<Rightarrow> pbar_callback option \<Rightarrow> track_item list
     \<Rightarrow> world \<Rightarrow> (error + dl_result) list" where
  "track_outcomes e d album_data folder_path pbar [] w = []"
| "track_outcomes e d album_data folder_path pbar (track # tracks) w =
     (case download_track e d w (ti_id track) (Some album_data) (Some folder_path) pbar of
        (Inl err, w) \<Rightarrow>
          Inl err # track_outcomes e d album_data folder_path pbar tracks
                      (emit (ErrorFailedTrack (ti_title track) err) w)
      | (Inr result, w) \<Rightarrow>
          Inr result # track_outcomes e d album_data folder_path pbar tracks w)"

text \<open>The results among a list of outcomes, and the failure records of the tracks whose
  outcome is an exception.\<close>

fun results_of :: "(error + dl_result) list \<Rightarrow> dl_result list" where
  "results_of [] = []"
| "results_of (Inl err # os) = results_of os"
| "results_of (Inr r # os) = r # results_of os"

fun failures_of :: "track_item list \<Rightarrow> (error + dl_result) list \<Rightarrow> log_entry list" where
  "failures_of (t # ts) (Inl err # os) = ErrorFailedTrack (ti_title t) err # failures_of ts os"
| "failures_of (t # ts) (Inr r # os) = failures_of ts os"
| "failures_of ts os = []"

section \<open>A sample environment\<close>

text \<open>A concrete environment and an empty world, on which the theorems below are
  instantiated: a clock that starts at 1700000000 and advances by one second per
  reading, servers that cannot be reached, and simple stand-ins for the library
  functions (the digest is not MD5).\<close>

definition demo_env :: env where
  "demo_env =
     \<lparr>time_at = (\<lambda>k. 1700000000 + int k),
      srv = (\<lambda>req. Inl (TransportError ''unreachable'')),
      srv_stream = (\<lambda>url. Inl (TransportError ''unreachable'')),
      md5_hex = (\<lambda>s. ''#'' @ s),
      sanitize_filename = filter (\<lambda>c. c \<noteq> CHR ''/''),
      b64decode_utf8 = (\<lambda>s. if s = [] \<or> CHR ''!'' \<in> set s then None else Some s),
      bundle_url_search = (\<lambda>text. None),
      app_id_search = (\<lambda>text. None),
      seed_timezone_finditer = (\<lambda>text. []),
      info_extras_finditer = (\<lambda>tzs text. []),
      parse_flac = (\<lambda>data. Inl (MutagenError ''not a FLAC file'')),
      fallback_kbps = (\<lambda>data. Inl ZeroDivisionError),
      mp3_bitrate = (\<lambda>data. Inl (MutagenError ''not an MP3 file'')),
      fmt_g_khz = (\<lambda>sr. str_int (sr div 1000) @ ''.'' @ str_int (sr mod 1000 div 100)),
      make_thumbnail = (\<lambda>img. Inr img),
      write_tags = (\<lambda>mp3 data track album cover. Inr data)\<rparr>"

definition demo_world :: world where
  "demo_world = \<lparr>files = Map.empty, dirs = {}, ticks = 0, net_log = [], log = [], progress = []\<rparr>"

text \<open>A server for the probes of the sample environment, whose digest ends with the
  secret: status 200 for a request signed with \<open>good\<close>, status 401 for any other
  signed request.\<close>

definition probe_server :: "string \<Rightarrow> request \<Rightarrow> error + response" where
  "probe_server good req =
     (case req of
        HttpGet url params hdrs \<Rightarrow>
          (case map_of params ''request_sig'' of
             Some (PStr sg) \<Rightarrow>
               Inr \<lparr>status_code = (if endswith sg good then 200 else 401),
                    body = JInvalid, content = []\<rparr>
           | _ \<Rightarrow> Inl (TransportError ''unreachable''))
      | HttpStream url \<Rightarrow> Inl (TransportError ''unreachable''))"

definition demo_client :: qobuz_client where
  "demo_client =
     new_client (Some ''user@example.org'') (Some ''password'') None (Some ''123456789'')
       (Some ''s3cr3t'')"

text \<open>The sample environment with given results of the two searches for secrets. Its
  stand-in for the decoder accepts any non-empty text without an exclamation mark and
  returns it as it is.\<close>

definition bundle_env ::
  "(string \<times> string) list \<Rightarrow> (string \<times> string \<times> string) list \<Rightarrow> env" where
  "bundle_env ms ims =
     demo_env\<lparr>seed_timezone_finditer := (\<lambda>text. ms),
               info_extras_finditer := (\<lambda>tzs text. ims)\<rparr>"

definition suffix44 :: string where
  "suffix44 = ''0123456789012345678901234567890123456789abcd''"

definition demo_infos :: "(string \<times> string \<times> string) list" where
  "demo_infos =
     [(''Berlin'', ''I'', suffix44), (''London'', ''J'', suffix44), (''Algiers'', ''K'', suffix44)]"

text \<open>An album of the sample environment and an image server that raises for the
  original-size URL, answers 404 for the large one and 200 for the small one.\<close>

definition demo_album :: album_data where
  "demo_album =
     \<lparr>ad_artist_name = ''Artist'', ad_title = ''Album'',
      ad_release_date_original = Some ''2020-05-01'',
      ad_image_large = ''http://img/x_600.jpg'', ad_image_small = Some ''http://img/x_50.jpg'',
      ad_tracks = [\<lparr>ti_id = PInt 1, ti_title = ''One''\<rparr>, \<lparr>ti_id = PInt 2, ti_title = ''Two''\<rparr>,
                   \<lparr>ti_id = PInt 3, ti_title = ''Three''\<rparr>]\<rparr>"

definition image_server :: "request \<Rightarrow> error + response" where
  "image_server req =
     (if req = HttpGet ''http://img/x_50.jpg'' [] []
      then Inr \<lparr>status_code = 200, body = JInvalid, content = ''JPEG''\<rparr>
      else if req = HttpGet ''http://img/x_600.jpg'' [] []
      then Inr \<lparr>status_code = 404, body = JInvalid, content = []\<rparr>
      else Inl (TransportError ''timeout''))"

text \<open>An API server for the sample environment: \<open>track/get\<close> answers with a track whose
  number is the requested identifier, \<open>track/getFileUrl\<close> has a URL for every track
  but number 2, \<open>album/get\<close> answers with the sample album, and image URLs are served as
  above. The audio stream delivers two chunks.\<close>

definition demo_track :: "int \<Rightarrow> track_data" where
  "demo_track n =
     \<lparr>td_title = ''Song'', td_version = None, td_work = None, td_track_number = n,
      td_duration = Some 180, td_album = Some demo_album\<rparr>"

definition api_server :: "request \<Rightarrow> error + response" where
  "api_server req =
     (case req of
        HttpGet url params hdrs \<Rightarrow>
          if url = ''https://www.qobuz.com/api.json/0.2/track/get'' then
            (case map_of params ''track_id'' of
               Some (PInt n) \<Rightarrow> Inr \<lparr>status_code = 200, body = JTrack (demo_track n), content = []\<rparr>
             | other \<Rightarrow> Inr \<lparr>status_code = 404, body = JInvalid, content = []\<rparr>)
          else if url = ''https://www.qobuz.com/api.json/0.2/track/getFileUrl'' then
            Inr \<lparr>status_code = 200,
                 body = JFileInfo \<lparr>fi_url = (if map_of params ''track_id'' = Some (PInt 2) then None
                                               else Some ''http://cdn/audio'')\<rparr>,
                 content = []\<rparr>
          else if url = ''https://www.qobuz.com/api.json/0.2/album/get'' then
            Inr \<lparr>status_code = 200, body = JAlbum demo_album, content = []\<rparr>
          else image_server req
      | HttpStream url \<Rightarrow> Inl (TransportError ''unreachable''))"

definition dl_env :: env where
  "dl_env =
     demo_env\<lparr>srv := api_server,
               srv_stream := (\<lambda>url. Inr \<lparr>st_status = 200, st_content_length = Some 8,
                                           st_chunks = [''fLaC'', ''data''], st_failure = None\<rparr>)\<rparr>"

definition demo_downloader :: downloader where
  "demo_downloader = \<lparr>client = demo_client, base_path = ''dl'', quality = 6\<rparr>"

text \<open>A world in which the final file of track 1 of the sample album is on disk.\<close>

definition world_with_track :: world where
  "world_with_track = demo_world\<lparr>files := [''dl/Artist - Album (2020)/01. Song.flac'' \<mapsto> ''fLaC'']\<rparr>"

section \<open>Theorems\<close>

text \<open>
  C9. On the text \<open>(P) 2020\<close> the function yields the copyright sign U+00A9 followed by
  \<open> 2020\<close>, not the phonogram sign U+2117: the two constants of line 11 hold each
  other's glyph.
\<close>

theorem format_copyright_P_gives_00A9:
  "format_copyright (cps ''(P) 2020'') = 0xA9 # cps '' 2020''"
  by (simp add: format_copyright_def cps_def PHON_COPYRIGHT_def COPYRIGHT_def)

text \<open>
  C10. For a FLAC file that mutagen can read, the caption of \<open>get_audio_info\<close> names the
  quality "Hi-Res" exactly when the bit depth is above 16 or the sample rate is above
  48000 Hz, and "CD" otherwise; 24 bit at 44100 Hz is "Hi-Res" and 16 bit at 44100 Hz
  is "CD". The bit depth is 16 when the stream information has none.
\<close>

theorem get_audio_info_classification:
  assumes "endswith file_path ''.flac''"
    and "files w file_path = Some data"
    and "parse_flac e data = Inr info"
    and "flac_kbps e data info = Inr kbps"
    and "bt_depth = (case bits_per_sample info of None \<Rightarrow> 16 | Some b \<Rightarrow> b)"
  shows "get_audio_info e w file_path =
           (''FLAC '' @ (if bt_depth > 16 \<or> sample_rate info > 48000 then ''Hi-Res'' else ''CD'')
            @ '' '' @ str_int bt_depth @ ''-Bit / '' @ fmt_g_khz e (sample_rate info)
            @ '' kHz / '' @ str_int kbps @ '' kbps'', w)
         \<and> quality_type 24 44100 = ''Hi-Res'' \<and> quality_type 16 44100 = ''CD''"
  using assms
  by (simp add: get_audio_info_def audio_info_body_def read_file_def quality_type_def
      is_hires_def)

text \<open>
  C5. With the clock reading \<open>ts\<close>, \<open>_generate_sig\<close> returns \<open>ts\<close> and the hex digest
  of the canonical string: for method \<open>getFileUrl\<close> the string
  \<open>trackgetFileUrlformat_id{format_id}intentstreamtrack_id{track_id}{ts}{secret}\<close>, for a
  method without a template of its own \<open>{entity}{method}{ts}{secret}\<close>; two calls with the
  same arguments and the same clock reading return the same value.
\<close>

theorem generate_sig_canonical:
  assumes "time_at e (ticks w) = ts"
  shows "(params ''format_id'' = Some format_id \<and> params ''track_id'' = Some track_id \<longrightarrow>
            fst (generate_sig e w entity ''getFileUrl'' params secret) =
              Inr \<lparr>sig_ts = ts,
                   sig_sig = md5_hex e (''trackgetFileUrlformat_id'' @ py_str format_id
                               @ ''intentstreamtrack_id'' @ py_str track_id
                               @ str_int ts @ py_str secret)\<rparr>)
       \<and> (method \<noteq> ''getFileUrl'' \<and> method \<noteq> ''getUserFavorites'' \<longrightarrow>
            fst (generate_sig e w entity method params secret) =
              Inr \<lparr>sig_ts = ts,
                   sig_sig = md5_hex e (entity @ method @ str_int ts @ py_str secret)\<rparr>)
       \<and> (time_at e (ticks w') = ts \<longrightarrow>
            fst (generate_sig e w' entity method params secret) =
              fst (generate_sig e w entity method params secret))"
  using assms by (simp add: generate_sig_def Let_def split: option.splits)

theorem generate_sig_canonical_witness:
  "time_at demo_env (ticks demo_world) = 1700000000
   \<and> fst (generate_sig demo_env demo_world ''track'' ''getFileUrl''
            [''track_id'' \<mapsto> PInt 5966783, ''format_id'' \<mapsto> PInt 5] (PStr ''abc'')) =
       Inr \<lparr>sig_ts = 1700000000,
            sig_sig = md5_hex demo_env
              ''trackgetFileUrlformat_id5intentstreamtrack_id59667831700000000abc''\<rparr>
   \<and> fst (generate_sig demo_env demo_world ''album'' ''get'' Map.empty (PStr ''abc'')) =
       Inr \<lparr>sig_ts = 1700000000, sig_sig = md5_hex demo_env ''albumget1700000000abc''\<rparr>
   \<and> fst (generate_sig demo_env (demo_world\<lparr>log := [InfoScraping]\<rparr>) ''album'' ''get''
            Map.empty (PStr ''abc'')) =
       fst (generate_sig demo_env demo_world ''album'' ''get'' Map.empty (PStr ''abc''))"
proof -
  have t: "time_at demo_env (ticks demo_world) = 1700000000"
    by (simp add: demo_env_def demo_world_def)
  have t': "time_at demo_env (ticks (demo_world\<lparr>log := [InfoScraping]\<rparr>)) = 1700000000"
    by (simp add: demo_env_def demo_world_def)
  have s: "str_int 1700000000 = ''1700000000''" "str_int 5966783 = ''5966783''" "str_int 5 = ''5''"
    by (simp_all add: str_int_def str_nat.simps digit_char_def)
  note g = generate_sig_canonical [OF t]
  have a: "fst (generate_sig demo_env demo_world ''track'' ''getFileUrl''
            [''track_id'' \<mapsto> PInt 5966783, ''format_id'' \<mapsto> PInt 5] (PStr ''abc'')) =
       Inr \<lparr>sig_ts = 1700000000,
            sig_sig = md5_hex demo_env
              ''trackgetFileUrlformat_id5intentstreamtrack_id59667831700000000abc''\<rparr>"
    using g [of "[''track_id'' \<mapsto> PInt 5966783, ''format_id'' \<mapsto> PInt 5]" "PInt 5" "PInt 5966783"
        "''track''" "PStr ''abc''" "''x''" demo_world]
    by (simp add: s)
  have b: "fst (generate_sig demo_env demo_world ''album'' ''get'' Map.empty (PStr ''abc'')) =
       Inr \<lparr>sig_ts = 1700000000, sig_sig = md5_hex demo_env ''albumget1700000000abc''\<rparr>"
    using g [of Map.empty PNone PNone "''album''" "PStr ''abc''" "''get''" demo_world]
    by (simp add: s)
  have c: "fst (generate_sig demo_env (demo_world\<lparr>log := [InfoScraping]\<rparr>) ''album'' ''get''
            Map.empty (PStr ''abc'')) =
       fst (generate_sig demo_env demo_world ''album'' ''get'' Map.empty (PStr ''abc''))"
    using g [of Map.empty PNone PNone "''album''" "PStr ''abc''" "''get''"
        "demo_world\<lparr>log := [InfoScraping]\<rparr>"] t'
    by simp
  from t a b c show ?thesis by simp
qed

theorem get_audio_info_classification_witness:
  "endswith ''a/01. x.flac'' ''.flac''
   \<and> get_audio_info
       (demo_env\<lparr>parse_flac := (\<lambda>data. Inr \<lparr>bits_per_sample = Some 24, sample_rate = 44100,
                                             bitrate = Some 1411200\<rparr>)\<rparr>)
       (demo_world\<lparr>files := [''a/01. x.flac'' \<mapsto> ''fLaC'']\<rparr>) ''a/01. x.flac'' =
     (''FLAC Hi-Res 24-Bit / 44.1 kHz / 1411 kbps'',
      demo_world\<lparr>files := [''a/01. x.flac'' \<mapsto> ''fLaC'']\<rparr>)"
proof -
  let ?e = "demo_env\<lparr>parse_flac := (\<lambda>data. Inr \<lparr>bits_per_sample = Some 24, sample_rate = 44100,
                                             bitrate = Some 1411200\<rparr>)\<rparr>"
  let ?w = "demo_world\<lparr>files := [''a/01. x.flac'' \<mapsto> ''fLaC'']\<rparr>"
  let ?i = "\<lparr>bits_per_sample = Some 24, sample_rate = 44100, bitrate = Some (1411200::int)\<rparr>"
  have h1: "endswith ''a/01. x.flac'' ''.flac''" by (simp add: endswith_def)
  have h2: "files ?w ''a/01. x.flac'' = Some ''fLaC''" by simp
  have h3: "parse_flac ?e ''fLaC'' = Inr ?i" by simp
  have h4: "flac_kbps ?e ''fLaC'' ?i = Inr 1411" by (simp add: flac_kbps_def int_div_1000_def)
  have h5: "(24::int) = (case bits_per_sample ?i of None \<Rightarrow> 16 | Some b \<Rightarrow> b)" by simp
  have s: "str_int 24 = ''24''" "str_int 1411 = ''1411''" "str_int 44 = ''44''" "str_int 1 = ''1''"
    by (simp_all add: str_int_def str_nat.simps digit_char_def)
  show ?thesis
    using h1 get_audio_info_classification [OF h1 h2 h3 h4 h5]
    by (simp add: s demo_env_def)
qed

lemma str_int_consts: "str_int 5 = ''5''" "str_int 5966783 = ''5966783''"
  by (simp_all add: str_int_def str_nat.simps digit_char_def)

lemma find_loop_Cons:
  "s \<noteq> [] \<Longrightarrow>
   find_loop e c (s # ss) w =
     (let req = signed_probe e c (time_at e (ticks w)) s;
          w1 = w\<lparr>ticks := Suc (ticks w), net_log := net_log w @ [req]\<rparr>
      in case srv e req of
           Inl err \<Rightarrow> find_loop e c ss w1
         | Inr resp \<Rightarrow>
             if status_code resp = 200 \<or> status_code resp = 403
             then (Inr (), c\<lparr>active_secret := Some s\<rparr>, emit InfoFoundActiveSecret w1)
             else if status_code resp = 401
             then find_loop e c ss (emit WarningTokenUnauthorized w1)
             else find_loop e c ss w1)"
  by (simp add: find_loop.simps generate_sig_def Let_def test_track_id_def str_int_consts send_def
      probe_request_def signed_probe_def base_url_def split: sum.splits)

lemma find_loop_probes:
  "find_loop e c ss w =
     (let ps = probes_from e c (ticks w) ss;
          rejected = takeWhile (\<lambda>p. \<not> accepted e p) ps
      in case dropWhile (\<lambda>p. \<not> accepted e p) ps of
           [] \<Rightarrow>
             (Inl (GenericException ''Could not find a valid app secret''), c,
              w\<lparr>ticks := ticks w + length ps,
                net_log := net_log w @ map snd ps,
                log := log w @ map (\<lambda>p. WarningTokenUnauthorized) (filter (unauthorized e) ps)\<rparr>)
         | (secret, req) # later \<Rightarrow>
             (Inr (), c\<lparr>active_secret := Some secret\<rparr>,
              w\<lparr>ticks := ticks w + length rejected + 1,
                net_log := net_log w @ map snd rejected @ [req],
                log := log w @ map (\<lambda>p. WarningTokenUnauthorized)
                                 (filter (unauthorized e) rejected)
                       @ [InfoFoundActiveSecret]\<rparr>))"
proof (induction ss arbitrary: w)
  case Nil
  show ?case by (simp add: find_loop.simps)
next
  case (Cons s ss)
  show ?case
  proof (cases "s = []")
    case True
    then show ?thesis using Cons.IH [of w] by (simp add: find_loop.simps)
  next
    case False
    let ?req = "signed_probe e c (time_at e (ticks w)) s"
    let ?w1 = "w\<lparr>ticks := Suc (ticks w), net_log := net_log w @ [?req]\<rparr>"
    note step = find_loop_Cons [OF False, of e c ss w]
    have ps: "probes_from e c (ticks w) (s # ss) = (s, ?req) # probes_from e c (Suc (ticks w)) ss"
      using False by simp
    let ?ps' = "probes_from e c (Suc (ticks w)) ss"
    show ?thesis
    proof (cases "accepted e (s, ?req)")
      case True
      then show ?thesis
        unfolding step ps by (auto simp: accepted_def Let_def emit_def split: sum.splits)
    next
      case rejected: False
      show ?thesis
      proof (cases "unauthorized e (s, ?req)")
        case True
        then have eq: "find_loop e c (s # ss) w = find_loop e c ss (emit WarningTokenUnauthorized ?w1)"
          unfolding step by (auto simp: unauthorized_def Let_def split: sum.splits)
        show ?thesis
        proof (cases "dropWhile (\<lambda>p. \<not> accepted e p) ?ps'")
          case Nil
          show ?thesis
            unfolding ps eq Cons.IH [of "emit WarningTokenUnauthorized ?w1"]
            using rejected True by (simp add: Nil Let_def emit_def)
        next
          case (Cons p later)
          show ?thesis
            unfolding ps eq Cons.IH [of "emit WarningTokenUnauthorized ?w1"]
            using rejected True by (simp add: Cons Let_def emit_def split: prod.splits)
        qed
      next
        case False
        then have eq: "find_loop e c (s # ss) w = find_loop e c ss ?w1"
          unfolding step using rejected
          by (auto simp: unauthorized_def accepted_def Let_def split: sum.splits)
        show ?thesis
        proof (cases "dropWhile (\<lambda>p. \<not> accepted e p) ?ps'")
          case Nil
          show ?thesis
            unfolding ps eq Cons.IH [of ?w1]
            using rejected False by (simp add: Nil Let_def)
        next
          case (Cons p later)
          show ?thesis
            unfolding ps eq Cons.IH [of ?w1]
            using rejected False by (simp add: Cons Let_def split: prod.splits)
        qed
      qed
    qed
  qed
qed

text \<open>
  C2 (amended). \<open>_find_active_secret\<close> probes the non-empty candidates in list order,
  each with a signed \<open>track/getFileUrl\<close> request for track 5966783. The first candidate
  whose probe is answered with status 200 or 403 becomes the active secret and no
  further request is sent. A probe answered with status 401 logs one warning and the
  next candidate is tried, as after any other answer or a transport error. When no
  probe is answered with 200 or 403, the generic exception "Could not find a valid app
  secret" is raised and the client is as it was before the call: the active secret
  keeps the value it had.
\<close>

theorem find_active_secret_probes:
  "find_active_secret e c w =
     (let ps = probes_from e c (ticks w) (secrets c);
          rejected = takeWhile (\<lambda>p. \<not> accepted e p) ps
      in case dropWhile (\<lambda>p. \<not> accepted e p) ps of
           [] \<Rightarrow>
             (Inl (GenericException ''Could not find a valid app secret''), c,
              w\<lparr>ticks := ticks w + length ps,
                net_log := net_log w @ map snd ps,
                log := log w @ map (\<lambda>p. WarningTokenUnauthorized) (filter (unauthorized e) ps)\<rparr>)
         | (secret, req) # later \<Rightarrow>
             (Inr (), c\<lparr>active_secret := Some secret\<rparr>,
              w\<lparr>ticks := ticks w + length rejected + 1,
                net_log := net_log w @ map snd rejected @ [req],
                log := log w @ map (\<lambda>p. WarningTokenUnauthorized)
                                 (filter (unauthorized e) rejected)
                       @ [InfoFoundActiveSecret]\<rparr>))"
  unfolding find_active_secret_def by (rule find_loop_probes)

lemma str_int_clock:
  "str_int 1700000000 = ''1700000000''" "str_int 1700000001 = ''1700000001''"
  "str_int 1700000002 = ''1700000002''"
  by (simp_all add: str_int_def str_nat.simps digit_char_def)

theorem find_active_secret_probes_witness:
  "find_active_secret (demo_env\<lparr>srv := probe_server ''second''\<rparr>)
     (demo_client\<lparr>secrets := [''first'', [], ''second'', ''third'']\<rparr>) demo_world =
   (Inr (),
    demo_client\<lparr>secrets := [''first'', [], ''second'', ''third''],
                active_secret := Some ''second''\<rparr>,
    demo_world\<lparr>ticks := 2,
      net_log := [signed_probe demo_env demo_client 1700000000 ''first'',
                  signed_probe demo_env demo_client 1700000001 ''second''],
      log := [WarningTokenUnauthorized, InfoFoundActiveSecret]\<rparr>)"
  using find_active_secret_probes [of "demo_env\<lparr>srv := probe_server ''second''\<rparr>"
      "demo_client\<lparr>secrets := [''first'', [], ''second'', ''third'']\<rparr>" demo_world]
  by (simp add: demo_env_def demo_world_def demo_client_def new_client_def accepted_def
      unauthorized_def signed_probe_def probe_server_def endswith_def str_int_clock)

text \<open>
  The claim as stated fails: a client constructed with an application secret and then
  logged in runs the probing with that secret already active; when the probe finds no
  answer, the exception is raised and the secret is still set.
\<close>

theorem find_active_secret_keeps_secret_counterexample:
  "fst (find_active_secret demo_env demo_client demo_world) =
     Inl (GenericException ''Could not find a valid app secret'')
   \<and> active_secret (fst (snd (find_active_secret demo_env demo_client demo_world))) =
       Some ''s3cr3t''"
  by (simp add: find_active_secret_def find_loop.simps generate_sig_def send_def
      demo_env_def demo_world_def demo_client_def new_client_def Let_def)

subsection \<open>Secret discovery\<close>

lemma od_set_od_of:
  "od_set k v (od_of f keys) =
     od_of (f(k := v)) (if k \<in> set keys then keys else keys @ [k])"
  by (auto simp: od_set_def od_of_def comp_def)

lemma extend_first_seen:
  "extend keys xs = keys @ first_seen (filter (\<lambda>x. x \<notin> set keys) xs)"
proof (induction xs arbitrary: keys)
  case Nil
  show ?case by simp
next
  case (Cons x xs)
  show ?case
  proof (cases "x \<in> set keys")
    case True
    then show ?thesis by (simp add: Cons.IH)
  next
    case False
    have "filter (\<lambda>y. y \<notin> set (keys @ [x])) xs =
          filter (\<lambda>y. y \<noteq> x) (filter (\<lambda>y. y \<notin> set keys) xs)"
      by (auto intro: filter_cong)
    then show ?thesis using False by (simp add: Cons.IH)
  qed
qed

lemma extend_Nil: "extend [] xs = first_seen xs"
  by (simp add: extend_first_seen)

lemma distinct_first_seen: "distinct (first_seen xs)"
proof (induction xs rule: first_seen.induct)
  case 1
  show ?case by simp
next
  case (2 x xs)
  have "set (first_seen ys) \<subseteq> set ys" for ys :: "'a list"
    by (induction ys rule: first_seen.induct) auto
  then have "x \<notin> set (first_seen (filter (\<lambda>y. y \<noteq> x) xs))" by fastforce
  with 2 show ?case by simp
qed

lemma set_first_seen: "set (first_seen xs) = set xs"
  by (induction xs rule: first_seen.induct) auto

lemma collect_seeds_od_of:
  "collect_seeds ms (od_of f keys) =
     od_of (\<lambda>tz. case last_seed ms tz of None \<Rightarrow> f tz | Some s \<Rightarrow> [s])
       (extend keys (map snd ms))"
proof (induction ms arbitrary: f keys)
  case Nil
  show ?case by simp
next
  case (Cons m ms)
  obtain seed t where m: "m = (seed, t)" by (cases m)
  have "(\<lambda>tz. case last_seed ms tz of None \<Rightarrow> (f(t := [seed])) tz | Some s \<Rightarrow> [s]) =
        (\<lambda>tz. case last_seed ((seed, t) # ms) tz of None \<Rightarrow> f tz | Some s \<Rightarrow> [s])"
    by (auto split: option.splits)
  then show ?case
    by (simp add: m od_set_od_of Cons.IH)
qed

lemma reorder_od_of:
  assumes "distinct keys"
  shows "reorder (od_of f keys) =
           od_of f (case keys of a # b # rest \<Rightarrow> b # a # rest | short \<Rightarrow> short)"
proof (cases keys)
  case Nil
  then show ?thesis by (simp add: reorder_def od_of_def)
next
  case (Cons a ks)
  show ?thesis
  proof (cases ks)
    case Nil
    then show ?thesis using Cons by (simp add: reorder_def od_of_def)
  next
    case (Cons b rest)
    have b: "b \<notin> set rest" "a \<noteq> b"
      using assms \<open>keys = a # ks\<close> Cons by auto
    then have "filter (\<lambda>x. x = b) rest = []" "filter (\<lambda>x. x \<noteq> b) rest = rest"
      by (auto simp: filter_empty_conv filter_id_conv)
    then show ?thesis
      using b \<open>keys = a # ks\<close> Cons
      by (simp add: reorder_def move_to_front_def od_of_def filter_map comp_def)
  qed
qed

lemma map_of_od_of: "k \<in> set keys \<Longrightarrow> map_of (od_of f keys) k = Some (f k)"
  by (induction keys) (auto simp: od_of_def)

lemma add_info_extras_od_of:
  assumes "\<forall>(t, info, extras) \<in> set ims. lower t \<in> set keys"
  shows "add_info_extras ims (od_of f keys) = Inr (od_of (\<lambda>tz. f tz @ extras_for ims tz) keys)"
  using assms
proof (induction ims arbitrary: f)
  case Nil
  show ?case by (simp add: extras_for_def)
next
  case (Cons m ims)
  obtain t info extras where m: "m = (t, info, extras)" by (cases m)
  have k: "lower t \<in> set keys" using Cons.prems m by simp
  have "(\<lambda>tz. (f(lower t := f (lower t) @ [info, extras])) tz @ extras_for ims tz) =
        (\<lambda>tz. f tz @ extras_for ((t, info, extras) # ims) tz)"
    by (auto simp: extras_for_def)
  then show ?case
    using Cons.prems k by (simp add: m map_of_od_of od_set_od_of Cons.IH)
qed

lemma decode_secrets_od_of:
  "decode_secrets e (od_of f keys) =
     List.map_filter (\<lambda>tz. b64decode_utf8 e (drop_last 44 (concat (f tz)))) keys"
  by (induction keys) (auto simp: od_of_def drop_last_def List.map_filter_simps split: option.splits)

lemma collect_seeds_Nil:
  "collect_seeds ms [] =
     od_of (\<lambda>tz. case last_seed ms tz of None \<Rightarrow> [] | Some s \<Rightarrow> [s]) (first_seen (map snd ms))"
  using collect_seeds_od_of [of ms "\<lambda>tz. []" "[]"] by (simp add: od_of_def extend_Nil)

lemma bundle_secrets_char:
  assumes ms: "ms = seed_timezone_finditer e bundle_js"
    and order: "order = candidate_order (map snd ms)"
    and ims: "ims = info_extras_finditer e (join ''|'' (map capitalize order)) bundle_js"
    and keys: "\<forall>(t, info, extras) \<in> set ims. lower t \<in> set (map snd ms)"
  shows "bundle_secrets e bundle_js =
           Inr (List.map_filter
                  (\<lambda>tz. b64decode_utf8 e (drop_last 44 (candidate_text ms ims tz))) order)"
proof -
  let ?f = "\<lambda>tz. case last_seed ms tz of None \<Rightarrow> [] | Some s \<Rightarrow> [s]"
  have r: "reorder (collect_seeds ms []) = od_of ?f order"
    unfolding collect_seeds_Nil order candidate_order_def
    by (simp add: reorder_od_of distinct_first_seen)
  have pat: "map (\<lambda>(tz, parts). capitalize tz) (od_of ?f order) = map capitalize order"
    by (simp add: od_of_def comp_def)
  have swap: "set (case xs of a # b # r \<Rightarrow> b # a # r | short \<Rightarrow> short) = set xs"
    for xs :: "string list"
  proof (cases xs)
    case Nil
    then show ?thesis by simp
  next
    case (Cons a ks)
    then show ?thesis by (cases ks) auto
  qed
  have set_order: "set order = set (map snd ms)"
    unfolding order candidate_order_def swap by (simp add: set_first_seen)
  have keys': "\<forall>(t, info, extras) \<in> set ims. lower t \<in> set order"
    using keys set_order by simp
  have "bundle_secrets e bundle_js =
          (case add_info_extras ims (od_of ?f order) of
             Inl err \<Rightarrow> Inl err
           | Inr secrets_raw \<Rightarrow> Inr (decode_secrets e secrets_raw))"
    unfolding bundle_secrets_def Let_def ms [symmetric] r pat ims [symmetric] ..
  also have "\<dots> = Inr (decode_secrets e (od_of (\<lambda>tz. ?f tz @ extras_for ims tz) order))"
    by (simp add: add_info_extras_od_of [OF keys'])
  finally show ?thesis
    by (simp add: decode_secrets_od_of candidate_text_def)
qed

text \<open>
  C4. Lines 78-102 of \<open>_scrape_bundle\<close>, when every info/extras match names a discovered
  timezone: the candidate list holds, for each discovered timezone in candidate order,
  the decoding of the timezone's text without its last 44 characters, where the text is
  the seed followed by the info and extras found for the timezone; a timezone whose
  text does not decode contributes nothing, and the others keep their order. With one
  info/extras match for a timezone the text is seed + info + extras.
\<close>

theorem scrape_bundle_candidates:
  assumes "ms = seed_timezone_finditer e bundle_js"
    and "order = candidate_order (map snd ms)"
    and "ims = info_extras_finditer e (join ''|'' (map capitalize order)) bundle_js"
    and "\<forall>(t, info, extras) \<in> set ims. lower t \<in> set (map snd ms)"
  shows "bundle_secrets e bundle_js =
           Inr (List.map_filter
                  (\<lambda>tz. b64decode_utf8 e (drop_last 44 (candidate_text ms ims tz))) order)
         \<and> (\<forall>tz seed t info extras.
               last_seed ms tz = Some seed
               \<and> filter (\<lambda>(t, info, extras). lower t = tz) ims = [(t, info, extras)]
               \<longrightarrow> candidate_text ms ims tz = seed @ info @ extras)
         \<and> (\<forall>s::string. drop_last 44 s = take (length s - 44) s)"
  using bundle_secrets_char [OF assms]
  by (simp add: candidate_text_def extras_for_def drop_last_def)

text \<open>
  C3 (amended). When the bundle names at least two timezones, the second one discovered
  is moved to the front of the candidate order before the info/extras lookup and the
  decoding; if the text of that timezone decodes, the secret decoded from it is the
  first element of the candidate list.
\<close>

theorem scrape_bundle_second_timezone_first:
  assumes "ms = seed_timezone_finditer e bundle_js"
    and "order = candidate_order (map snd ms)"
    and "ims = info_extras_finditer e (join ''|'' (map capitalize order)) bundle_js"
    and "\<forall>(t, info, extras) \<in> set ims. lower t \<in> set (map snd ms)"
    and "first_seen (map snd ms) = tz1 # tz2 # others"
    and "b64decode_utf8 e (drop_last 44 (candidate_text ms ims tz2)) = Some secret"
  shows "order = tz2 # tz1 # others
         \<and> (\<exists>rest. bundle_secrets e bundle_js = Inr (secret # rest))"
proof -
  have o: "order = tz2 # tz1 # others"
    using assms(2,5) by (simp add: candidate_order_def)
  show ?thesis
    using bundle_secrets_char [OF assms(1-4)] assms(6)
    by (simp add: o List.map_filter_simps)
qed

lemma demo_first_seen:
  "first_seen [''berlin'', ''london'', ''algiers'', ''berlin''] = [''berlin'', ''london'', ''algiers'']"
  by simp

lemma bundle_env_simps:
  "b64decode_utf8 (bundle_env ms ims) s = (if s = [] \<or> CHR ''!'' \<in> set s then None else Some s)"
  "seed_timezone_finditer (bundle_env ms ims) text = ms"
  "info_extras_finditer (bundle_env ms ims) tzs text = ims"
  by (simp_all add: bundle_env_def demo_env_def)

lemma lower_demo:
  "lower ''Berlin'' = ''berlin''" "lower ''London'' = ''london''" "lower ''Algiers'' = ''algiers''"
  by (simp_all add: lower_def lower_char_def)

theorem scrape_bundle_candidates_witness:
  "bundle_secrets
     (bundle_env [(''alpha'', ''berlin''), (''bravo'', ''london''), (''ch!rlie'', ''algiers''),
                  (''delta'', ''berlin'')] demo_infos) ''bundle.js'' =
     Inr [''bravoJ'', ''deltaI'']
   \<and> candidate_text [(''alpha'', ''berlin''), (''bravo'', ''london''), (''ch!rlie'', ''algiers''),
                      (''delta'', ''berlin'')] demo_infos ''london'' = ''bravo'' @ ''J'' @ suffix44"
proof -
  let ?ms = "[(''alpha'', ''berlin''), (''bravo'', ''london''), (''ch!rlie'', ''algiers''),
              (''delta'', ''berlin'')]"
  let ?e = "bundle_env ?ms demo_infos"
  let ?order = "[''london'', ''berlin'', ''algiers'']"
  have h1: "?ms = seed_timezone_finditer ?e ''bundle.js''"
    by (simp add: bundle_env_simps)
  have h2: "?order = candidate_order (map snd ?ms)"
    by (simp add: candidate_order_def)
  have h3: "demo_infos = info_extras_finditer ?e (join ''|'' (map capitalize ?order)) ''bundle.js''"
    by (simp add: bundle_env_simps)
  have h4: "\<forall>(t, info, extras) \<in> set demo_infos. lower t \<in> set (map snd ?ms)"
    by (simp add: demo_infos_def lower_demo)
  have f: "filter (\<lambda>(t, info, extras). lower t = ''london'') demo_infos =
             [(''London'', ''J'', suffix44)]"
    by (simp add: demo_infos_def lower_demo)
  have l: "last_seed ?ms ''london'' = Some ''bravo''" by simp
  note t = scrape_bundle_candidates [OF h1 h2 h3 h4]
  have a: "bundle_secrets ?e ''bundle.js'' = Inr [''bravoJ'', ''deltaI'']"
    using t
    by (simp add: bundle_env_simps List.map_filter_simps candidate_text_def extras_for_def demo_infos_def
        lower_demo suffix44_def drop_last_def)
  have b: "candidate_text ?ms demo_infos ''london'' = ''bravo'' @ ''J'' @ suffix44"
    using t l f by blast
  from a b show ?thesis by simp
qed

theorem scrape_bundle_second_timezone_first_witness:
  "bundle_secrets
     (bundle_env [(''alpha'', ''berlin''), (''bravo'', ''london''), (''charlie'', ''algiers'')]
        demo_infos) ''bundle.js'' =
     Inr [''bravoJ'', ''alphaI'', ''charlieK'']"
proof -
  let ?ms = "[(''alpha'', ''berlin''), (''bravo'', ''london''), (''charlie'', ''algiers'')]"
  let ?e = "bundle_env ?ms demo_infos"
  let ?order = "[''london'', ''berlin'', ''algiers'']"
  have h1: "?ms = seed_timezone_finditer ?e ''bundle.js''"
    by (simp add: bundle_env_simps)
  have h2: "?order = candidate_order (map snd ?ms)"
    by (simp add: candidate_order_def)
  have h3: "demo_infos = info_extras_finditer ?e (join ''|'' (map capitalize ?order)) ''bundle.js''"
    by (simp add: bundle_env_simps)
  have h4: "\<forall>(t, info, extras) \<in> set demo_infos. lower t \<in> set (map snd ?ms)"
    by (simp add: demo_infos_def lower_demo)
  have h5: "first_seen (map snd ?ms) = ''berlin'' # ''london'' # [''algiers'']"
    by simp
  have h6: "b64decode_utf8 ?e (drop_last 44 (candidate_text ?ms demo_infos ''london'')) =
              Some ''bravoJ''"
    by (simp add: bundle_env_simps candidate_text_def extras_for_def demo_infos_def lower_demo suffix44_def
        drop_last_def)
  obtain rest where r: "bundle_secrets ?e ''bundle.js'' = Inr (''bravoJ'' # rest)"
    using scrape_bundle_second_timezone_first [OF h1 h2 h3 h4 h5 h6] by blast
  have "bundle_secrets ?e ''bundle.js'' = Inr [''bravoJ'', ''alphaI'', ''charlieK'']"
    by (simp add: bundle_secrets_def bundle_env_simps od_set_def reorder_def
        move_to_front_def capitalize_def demo_infos_def lower_demo suffix44_def)
  with r show ?thesis by simp
qed

text \<open>
  The claim as stated fails: two timezones are found, the text of the second one does
  not decode, and the candidate list starts with the secret of the first timezone.
\<close>

theorem scrape_bundle_second_undecodable_counterexample:
  "seed_timezone_finditer (bundle_env [(''alpha'', ''berlin''), (''br!vo'', ''london'')]
       (take 2 demo_infos)) ''bundle.js'' = [(''alpha'', ''berlin''), (''br!vo'', ''london'')]
   \<and> b64decode_utf8 (bundle_env [(''alpha'', ''berlin''), (''br!vo'', ''london'')]
       (take 2 demo_infos))
       (drop_last 44 (candidate_text [(''alpha'', ''berlin''), (''br!vo'', ''london'')]
          (take 2 demo_infos) ''london'')) = None
   \<and> bundle_secrets (bundle_env [(''alpha'', ''berlin''), (''br!vo'', ''london'')]
       (take 2 demo_infos)) ''bundle.js'' = Inr [''alphaI'']"
  by (simp add: bundle_secrets_def bundle_env_simps od_set_def reorder_def
      move_to_front_def capitalize_def demo_infos_def lower_demo suffix44_def
      candidate_text_def extras_for_def drop_last_def)

subsection \<open>Cover art\<close>

lemma cover_loop_skip:
  "u = None \<or> u = Some [] \<Longrightarrow> cover_loop e cover_path (u # urls) w = cover_loop e cover_path urls w"
  by (auto simp: cover_loop.simps)

lemma cover_loop_try:
  "url \<noteq> [] \<Longrightarrow>
   cover_loop e cover_path (Some url # urls) w =
     (let w1 = w\<lparr>net_log := net_log w @ [cover_get url]\<rparr>
      in if cover_ok e url
         then (Some cover_path,
               w1\<lparr>files := (files w)(cover_path \<mapsto> cover_bytes e url),
                  log := log w @ [InfoDownloadedCover url]\<rparr>)
         else cover_loop e cover_path urls (w1\<lparr>log := log w @ cover_debug e [url]\<rparr>))"
  by (auto simp: cover_loop.simps send_def cover_get_def cover_ok_def cover_bytes_def
      cover_debug_def emit_def Let_def List.map_filter_simps split: sum.splits)

lemma usable_urls_simps:
  "usable_urls [] = []"
  "usable_urls (None # urls) = usable_urls urls"
  "usable_urls (Some [] # urls) = usable_urls urls"
  "url \<noteq> [] \<Longrightarrow> usable_urls (Some url # urls) = url # usable_urls urls"
  by (simp_all add: usable_urls_def List.map_filter_simps)

lemma cover_debug_Cons: "cover_debug e (url # urls) = cover_debug e [url] @ cover_debug e urls"
  by (simp add: cover_debug_def List.map_filter_simps split: sum.splits)

lemma cover_debug_Nil: "cover_debug e [] = []"
  by (simp add: cover_debug_def List.map_filter_simps)

lemma cover_loop_char:
  "cover_loop e cover_path urls w =
     (let cands = usable_urls urls;
          failed = takeWhile (\<lambda>url. \<not> cover_ok e url) cands
      in case dropWhile (\<lambda>url. \<not> cover_ok e url) cands of
           [] \<Rightarrow>
             (None,
              w\<lparr>net_log := net_log w @ map cover_get cands,
                log := log w @ cover_debug e cands @ [WarningFailedAnyCover]\<rparr>)
         | url # later \<Rightarrow>
             (Some cover_path,
              w\<lparr>net_log := net_log w @ map cover_get (failed @ [url]),
                files := (files w)(cover_path \<mapsto> cover_bytes e url),
                log := log w @ cover_debug e failed @ [InfoDownloadedCover url]\<rparr>))"
proof (induction urls arbitrary: w)
  case Nil
  show ?case by (simp add: cover_loop.simps usable_urls_simps cover_debug_Nil emit_def)
next
  case (Cons u urls)
  show ?case
  proof (cases "u = None \<or> u = Some []")
    case True
    then show ?thesis
      using Cons.IH [of w] by (auto simp: cover_loop_skip usable_urls_simps)
  next
    case False
    then obtain url where u: "u = Some url" "url \<noteq> []" by (cases u) auto
    let ?w1 = "w\<lparr>net_log := net_log w @ [cover_get url], log := log w @ cover_debug e [url]\<rparr>"
    show ?thesis
    proof (cases "cover_ok e url")
      case True
      then show ?thesis
        by (simp add: u cover_loop_try usable_urls_simps Let_def cover_debug_Nil)
    next
      case notok: False
      show ?thesis
      proof (cases "dropWhile (\<lambda>url. \<not> cover_ok e url) (usable_urls urls)")
        case Nil
        show ?thesis
          using notok
          by (simp add: u cover_loop_try usable_urls_simps Let_def Cons.IH [of ?w1] Nil
              cover_debug_Cons [of e url "usable_urls urls"])
      next
        case (Cons good later)
        show ?thesis
          using notok
          by (simp add: u cover_loop_try usable_urls_simps Let_def Cons.IH [of ?w1] Cons
              cover_debug_Cons [of e url "takeWhile (\<lambda>url. \<not> cover_ok e url) (usable_urls urls)"])
      qed
    qed
  qed
qed

lemma replace_nonempty: "new \<noteq> [] \<Longrightarrow> s \<noteq> [] \<Longrightarrow> replace old new s \<noteq> []"
  by (cases s) auto

lemma download_cover_present:
  "path_exists w (path_join folder_path ''cover.jpg'') \<Longrightarrow>
   download_cover e w album_data folder_path = (Some (path_join folder_path ''cover.jpg''), w)"
  by (simp add: download_cover_def)

lemma download_cover_absent:
  "\<not> path_exists w (path_join folder_path ''cover.jpg'') \<Longrightarrow>
   download_cover e w album_data folder_path =
     cover_loop e (path_join folder_path ''cover.jpg'') (urls_to_try album_data) w"
  by (simp add: download_cover_def)

lemma cover_loop_Some_exists:
  "cover_loop e cover_path urls w = (Some p, w') \<Longrightarrow> p = cover_path \<and> path_exists w' cover_path"
  unfolding cover_loop_char Let_def
  by (auto simp: path_exists_def split: list.splits)

text \<open>
  C6. For an album object with its image URLs, \<open>_download_cover\<close> has no exceptional
  result. If \<open>cover.jpg\<close> is in the folder, its path is returned and nothing is sent or
  written. Otherwise the candidates (the large URL with \<open>_600.jpg\<close> replaced by
  \<open>_org.jpg\<close>, the large URL, the small URL, leaving out a missing or empty one) are
  requested in this order up to the first one answered with status 200, whose bytes are
  written to \<open>cover.jpg\<close>; when only the third of three candidates is answered with 200,
  exactly three GETs are sent; when none is, the result is \<open>None\<close>, nothing is written,
  and a warning is logged. After a call that returned a path, another call for the same
  folder sends nothing.
\<close>

theorem download_cover_fallback:
  assumes "cover_path = path_join folder_path ''cover.jpg''"
    and "large = ad_image_large album_data"
    and "guessed = replace ''_600.jpg'' ''_org.jpg'' large"
    and "cands = usable_urls [Some guessed, Some large, ad_image_small album_data]"
    and "r = download_cover e w album_data folder_path"
  shows "(path_exists w cover_path \<longrightarrow> r = (Some cover_path, w))
       \<and> (\<not> path_exists w cover_path \<longrightarrow>
            r = (case dropWhile (\<lambda>url. \<not> cover_ok e url) cands of
                   [] \<Rightarrow>
                     (None,
                      w\<lparr>net_log := net_log w @ map cover_get cands,
                        log := log w @ cover_debug e cands @ [WarningFailedAnyCover]\<rparr>)
                 | url # later \<Rightarrow>
                     (Some cover_path,
                      w\<lparr>net_log := net_log w
                           @ map cover_get (takeWhile (\<lambda>url. \<not> cover_ok e url) cands @ [url]),
                        files := (files w)(cover_path \<mapsto> cover_bytes e url),
                        log := log w
                           @ cover_debug e (takeWhile (\<lambda>url. \<not> cover_ok e url) cands)
                           @ [InfoDownloadedCover url]\<rparr>)))
       \<and> (\<not> path_exists w cover_path \<and> large \<noteq> [] \<and> ad_image_small album_data = Some small
            \<and> small \<noteq> [] \<and> \<not> cover_ok e guessed \<and> \<not> cover_ok e large \<and> cover_ok e small \<longrightarrow>
            fst r = Some cover_path
            \<and> net_log (snd r) = net_log w @ [cover_get guessed, cover_get large, cover_get small]
            \<and> files (snd r) cover_path = Some (cover_bytes e small))
       \<and> (\<not> path_exists w cover_path \<and> (\<forall>url \<in> set cands. \<not> cover_ok e url) \<longrightarrow>
            fst r = None \<and> files (snd r) = files w
            \<and> net_log (snd r) = net_log w @ map cover_get cands)
       \<and> (fst r = Some p \<longrightarrow>
            download_cover e (snd r) album_data folder_path = (Some p, snd r))"
proof -
  let ?ok = "\<lambda>url. \<not> cover_ok e url"
  have present: "path_exists w cover_path \<longrightarrow> r = (Some cover_path, w)"
    using assms by (simp add: download_cover_present)
  have loop: "r = cover_loop e cover_path (urls_to_try album_data) w"
    if "\<not> path_exists w cover_path"
    using that assms by (simp add: download_cover_absent)
  have urls: "usable_urls (urls_to_try album_data) = cands"
    using assms by (simp add: urls_to_try_def Let_def)
  have absent: "\<not> path_exists w cover_path \<longrightarrow>
            r = (case dropWhile ?ok cands of
                   [] \<Rightarrow>
                     (None,
                      w\<lparr>net_log := net_log w @ map cover_get cands,
                        log := log w @ cover_debug e cands @ [WarningFailedAnyCover]\<rparr>)
                 | url # later \<Rightarrow>
                     (Some cover_path,
                      w\<lparr>net_log := net_log w @ map cover_get (takeWhile ?ok cands @ [url]),
                        files := (files w)(cover_path \<mapsto> cover_bytes e url),
                        log := log w @ cover_debug e (takeWhile ?ok cands)
                           @ [InfoDownloadedCover url]\<rparr>))"
    using loop by (simp add: cover_loop_char urls Let_def)
  have third: "\<not> path_exists w cover_path \<and> large \<noteq> [] \<and> ad_image_small album_data = Some small
            \<and> small \<noteq> [] \<and> \<not> cover_ok e guessed \<and> \<not> cover_ok e large \<and> cover_ok e small \<longrightarrow>
            fst r = Some cover_path
            \<and> net_log (snd r) = net_log w @ [cover_get guessed, cover_get large, cover_get small]
            \<and> files (snd r) cover_path = Some (cover_bytes e small)"
  proof (rule impI)
    assume h: "\<not> path_exists w cover_path \<and> large \<noteq> [] \<and> ad_image_small album_data = Some small
            \<and> small \<noteq> [] \<and> \<not> cover_ok e guessed \<and> \<not> cover_ok e large \<and> cover_ok e small"
    have g: "guessed \<noteq> []" using h assms(3) by (simp add: replace_nonempty)
    have c: "cands = [guessed, large, small]"
      using assms(4) h g by (simp add: usable_urls_simps)
    show "fst r = Some cover_path
            \<and> net_log (snd r) = net_log w @ [cover_get guessed, cover_get large, cover_get small]
            \<and> files (snd r) cover_path = Some (cover_bytes e small)"
      using absent h by (simp add: c)
  qed
  have none: "\<not> path_exists w cover_path \<and> (\<forall>url \<in> set cands. \<not> cover_ok e url) \<longrightarrow>
            fst r = None \<and> files (snd r) = files w
            \<and> net_log (snd r) = net_log w @ map cover_get cands"
  proof (rule impI)
    assume h: "\<not> path_exists w cover_path \<and> (\<forall>url \<in> set cands. \<not> cover_ok e url)"
    have d: "dropWhile ?ok cands = []" using h by simp
    show "fst r = None \<and> files (snd r) = files w
            \<and> net_log (snd r) = net_log w @ map cover_get cands"
      using absent h by (simp add: d)
  qed
  have again: "fst r = Some p \<longrightarrow>
            download_cover e (snd r) album_data folder_path = (Some p, snd r)"
  proof (rule impI)
    assume h: "fst r = Some p"
    show "download_cover e (snd r) album_data folder_path = (Some p, snd r)"
    proof (cases "path_exists w cover_path")
      case True
      then show ?thesis using present h assms(1) by (auto simp: download_cover_present)
    next
      case False
      then have "cover_loop e cover_path (urls_to_try album_data) w = (Some p, snd r)"
        using loop h by (metis prod.collapse)
      then have "p = cover_path \<and> path_exists (snd r) cover_path"
        by (rule cover_loop_Some_exists)
      then show ?thesis using assms(1) by (auto simp: download_cover_present)
    qed
  qed
  show ?thesis
    by (intro conjI) (rule present absent third none again)+
qed


lemma image_server_simps:
  "image_server (cover_get ''http://img/x_org.jpg'') =
     Inl (TransportError ''timeout'')"
  "image_server (cover_get ''http://img/x_600.jpg'') =
     Inr \<lparr>status_code = 404, body = JInvalid, content = []\<rparr>"
  "image_server (cover_get ''http://img/x_50.jpg'') =
     Inr \<lparr>status_code = 200, body = JInvalid, content = ''JPEG''\<rparr>"
  by (simp_all add: image_server_def cover_get_def)

theorem download_cover_fallback_witness:
  "download_cover (demo_env\<lparr>srv := image_server\<rparr>) demo_world demo_album ''dl/A'' =
     (Some ''dl/A/cover.jpg'',
      demo_world\<lparr>net_log := [cover_get ''http://img/x_org.jpg'', cover_get ''http://img/x_600.jpg'',
                              cover_get ''http://img/x_50.jpg''],
                  files := [''dl/A/cover.jpg'' \<mapsto> ''JPEG''],
                  log := [DebugFailedCoverFrom ''http://img/x_org.jpg'' (TransportError ''timeout''),
                          InfoDownloadedCover ''http://img/x_50.jpg'']\<rparr>)
   \<and> download_cover (demo_env\<lparr>srv := image_server\<rparr>)
         (snd (download_cover (demo_env\<lparr>srv := image_server\<rparr>) demo_world demo_album ''dl/A''))
         demo_album ''dl/A'' =
       (Some ''dl/A/cover.jpg'',
        snd (download_cover (demo_env\<lparr>srv := image_server\<rparr>) demo_world demo_album ''dl/A''))"
proof -
  let ?e = "demo_env\<lparr>srv := image_server\<rparr>"
  let ?r = "download_cover ?e demo_world demo_album ''dl/A''"
  have cp: "''dl/A/cover.jpg'' = path_join ''dl/A'' ''cover.jpg''"
    by (simp add: path_join_def)
  have lg: "''http://img/x_600.jpg'' = ad_image_large demo_album"
    by (simp add: demo_album_def)
  have gs: "''http://img/x_org.jpg'' = replace ''_600.jpg'' ''_org.jpg'' ''http://img/x_600.jpg''"
    by simp
  have cs: "[''http://img/x_org.jpg'', ''http://img/x_600.jpg'', ''http://img/x_50.jpg''] =
            usable_urls [Some ''http://img/x_org.jpg'', Some ''http://img/x_600.jpg'',
                         ad_image_small demo_album]"
    by (simp add: usable_urls_simps demo_album_def)
  have absent: "\<not> path_exists demo_world ''dl/A/cover.jpg''"
    by (simp add: path_exists_def demo_world_def)
  have ok: "\<not> cover_ok ?e ''http://img/x_org.jpg''" "\<not> cover_ok ?e ''http://img/x_600.jpg''"
    "cover_ok ?e ''http://img/x_50.jpg''"
    by (simp_all add: cover_ok_def image_server_simps)
  note t = download_cover_fallback [OF cp lg gs cs refl, where e = ?e and w = demo_world]
  have first: "?r =
     (Some ''dl/A/cover.jpg'',
      demo_world\<lparr>net_log := [cover_get ''http://img/x_org.jpg'', cover_get ''http://img/x_600.jpg'',
                              cover_get ''http://img/x_50.jpg''],
                  files := [''dl/A/cover.jpg'' \<mapsto> ''JPEG''],
                  log := [DebugFailedCoverFrom ''http://img/x_org.jpg'' (TransportError ''timeout''),
                          InfoDownloadedCover ''http://img/x_50.jpg'']\<rparr>)"
    using t absent ok
    by (simp add: cover_debug_def cover_bytes_def image_server_simps List.map_filter_simps
        demo_world_def)
  then have "fst ?r = Some ''dl/A/cover.jpg''" by simp
  with t have "download_cover ?e (snd ?r) demo_album ''dl/A'' = (Some ''dl/A/cover.jpg'', snd ?r)"
    by blast
  with first show ?thesis by blast
qed

end
